theory Spec2Isabelle
  imports Complex_Main
begin

section \<open>Python strings\<close>

text \<open>
  A Python \<open>str\<close> is modelled as a \<open>string\<close> whose characters are the code points
  below 256. The character classes below are the ones CPython uses for such code points:
  \<open>str.isspace\<close> (also the class \<open>\s\<close> of \<open>re\<close> and the characters removed by
  \<open>str.strip\<close>), the decimal digits (\<open>\d\<close>), the word characters (\<open>\w\<close>: alphanumeric
  or underscore) and \<open>str.lower\<close>.
\<close>

definition py_isspace :: "char \<Rightarrow> bool" where
  "py_isspace c =
     (let n = (of_char c :: nat)
      in (9 \<le> n \<and> n \<le> 13) \<or> (28 \<le> n \<and> n \<le> 32) \<or> n = 133 \<or> n = 160)"

definition py_isdigit :: "char \<Rightarrow> bool" where
  "py_isdigit c = (let n = (of_char c :: nat) in 48 \<le> n \<and> n \<le> 57)"

definition py_isword :: "char \<Rightarrow> bool" where
  "py_isword c =
     (let n = (of_char c :: nat)
      in (48 \<le> n \<and> n \<le> 57) \<or> (65 \<le> n \<and> n \<le> 90) \<or> n = 95 \<or> (97 \<le> n \<and> n \<le> 122)
         \<or> n = 170 \<or> n = 178 \<or> n = 179 \<or> n = 181 \<or> n = 185 \<or> n = 186
         \<or> (188 \<le> n \<and> n \<le> 190) \<or> (192 \<le> n \<and> n \<le> 214) \<or> (216 \<le> n \<and> n \<le> 246)
         \<or> 248 \<le> n)"

definition lower_char :: "char \<Rightarrow> char" where
  "lower_char c =
     (let n = (of_char c :: nat)
      in if (65 \<le> n \<and> n \<le> 90) \<or> (192 \<le> n \<and> n \<le> 222 \<and> n \<noteq> 215)
         then char_of (n + 32) else c)"

definition lower :: "string \<Rightarrow> string" where
  "lower s = map lower_char s"

definition strip :: "string \<Rightarrow> string" where
  "strip s = rev (dropWhile py_isspace (rev (dropWhile py_isspace s)))"

text \<open>\<open>w in s\<close> on strings: \<open>w\<close> occurs in \<open>s\<close> as a contiguous substring.\<close>

fun starts_with :: "string \<Rightarrow> string \<Rightarrow> bool" where
  "starts_with [] s = True"
| "starts_with (a # w) [] = False"
| "starts_with (a # w) (c # s) = (a = c \<and> starts_with w s)"

fun str_in :: "string \<Rightarrow> string \<Rightarrow> bool" where
  "str_in w [] = (w = [])"
| "str_in w (c # s) = (starts_with w (c # s) \<or> str_in w s)"

text \<open>An exception is a value; its argument is the text of \<open>str(e)\<close>.\<close>

datatype py_exn =
    KeyError string
  | AttributeError string
  | TypeError string
  | ValueError string
  | OtherError string

definition exn_str :: "py_exn \<Rightarrow> string" where
  "exn_str e = (case e of KeyError m \<Rightarrow> m | AttributeError m \<Rightarrow> m | TypeError m \<Rightarrow> m
                | ValueError m \<Rightarrow> m | OtherError m \<Rightarrow> m)"

text \<open>
  \<open>int(s)\<close> for decimal digit strings and \<open>str(n)\<close> for integers. CPython converts
  at most \<open>sys.get_int_max_str_digits()\<close> digits, 4300 by default, between \<open>str\<close> and
  \<open>int\<close> and raises \<open>ValueError\<close> beyond that: \<open>int(s)\<close> counts the digits of the
  text, leading zeros included, and \<open>str(n)\<close> the digits of \<open>n\<close>.
\<close>

definition digit_val :: "char \<Rightarrow> int" where
  "digit_val c = int (of_char c) - 48"

fun str_nat :: "nat \<Rightarrow> string" where
  "str_nat n =
     (if n < 10 then [char_of (48 + n)]
      else str_nat (n div 10) @ [char_of (48 + n mod 10)])"

definition str_int :: "int \<Rightarrow> string" where
  "str_int i = (if i < 0 then CHR ''-'' # str_nat (nat (- i)) else str_nat (nat i))"

definition max_str_digits :: nat where
  "max_str_digits = 4300"

definition py_int :: "string \<Rightarrow> py_exn + int" where
  "py_int s =
     (if length s > max_str_digits
      then Inl (ValueError
             (''Exceeds the limit ('' @ str_nat max_str_digits
              @ '' digits) for integer string conversion: value has '' @ str_nat (length s)
              @ '' digits; use sys.set_int_max_str_digits() to increase the limit''))
      else Inr (foldl (\<lambda>a c. 10 * a + digit_val c) 0 s))"

definition py_str :: "int \<Rightarrow> py_exn + string" where
  "py_str i =
     (if length (str_nat (nat \<bar>i\<bar>)) > max_str_digits
      then Inl (ValueError
             (''Exceeds the limit ('' @ str_nat max_str_digits
              @ '' digits) for integer string conversion; use sys.set_int_max_str_digits() to increase the limit''))
      else Inr (str_int i))"

section \<open>Regular expressions\<close>

text \<open>
  The fragment of Python's \<open>re\<close> syntax that the classifier's patterns use, with the
  semantics of a backtracking matcher: alternatives are tried left to right, the
  quantifiers are greedy, and \<open>rmatch\<close> lists the states reachable from a state in the
  order in which the matcher would try them. A state is the character before the current
  position (for \<open>\b\<close>), the rest of the subject, and the groups captured so far.
\<close>

datatype cclass = Digit | Space | Dot | Chars string

fun in_class :: "cclass \<Rightarrow> char \<Rightarrow> bool" where
  "in_class Digit c = py_isdigit c"
| "in_class Space c = py_isspace c"
| "in_class Dot c = (c \<noteq> CHR 0x0A)"
| "in_class (Chars cs) c = (c \<in> set cs)"

definition in_classes :: "cclass list \<Rightarrow> char \<Rightarrow> bool" where
  "in_classes cs c = list_ex (\<lambda>k. in_class k c) cs"

datatype regex =
    Lit string
  | Cls "cclass list"
  | Star "cclass list"
  | Plus "cclass list"
  | Opt regex
  | Seq regex regex
  | Alt regex regex
  | WordB
  | Grp regex

type_synonym mstate = "char option \<times> string \<times> string list"

fun star_states :: "cclass list \<Rightarrow> char option \<Rightarrow> string \<Rightarrow> string list \<Rightarrow> mstate list" where
  "star_states cs p [] caps = [(p, [], caps)]"
| "star_states cs p (c # r) caps =
     (if in_classes cs c then star_states cs (Some c) r caps else []) @ [(p, c # r, caps)]"

definition is_word_opt :: "char option \<Rightarrow> bool" where
  "is_word_opt p = (case p of None \<Rightarrow> False | Some c \<Rightarrow> py_isword c)"

definition at_boundary :: "char option \<Rightarrow> string \<Rightarrow> bool" where
  "at_boundary p r = (is_word_opt p \<noteq> is_word_opt (case r of [] \<Rightarrow> None | c # _ \<Rightarrow> Some c))"

fun rmatch :: "regex \<Rightarrow> mstate \<Rightarrow> mstate list" where
  "rmatch (Lit w) (p, r, caps) =
     (if starts_with w r
      then [(if w = [] then p else Some (last w), drop (length w) r, caps)] else [])"
| "rmatch (Cls cs) (p, r, caps) =
     (case r of [] \<Rightarrow> [] | c # r' \<Rightarrow> if in_classes cs c then [(Some c, r', caps)] else [])"
| "rmatch (Star cs) (p, r, caps) = star_states cs p r caps"
| "rmatch (Plus cs) (p, r, caps) =
     (case r of [] \<Rightarrow> []
      | c # r' \<Rightarrow> if in_classes cs c then star_states cs (Some c) r' caps else [])"
| "rmatch (Opt a) s = rmatch a s @ [s]"
| "rmatch (Seq a b) s = concat (map (rmatch b) (rmatch a s))"
| "rmatch (Alt a b) s = rmatch a s @ rmatch b s"
| "rmatch WordB (p, r, caps) = (if at_boundary p r then [(p, r, caps)] else [])"
| "rmatch (Grp a) (p, r, caps) =
     map (\<lambda>(p', r', caps'). (p', r', caps' @ [take (length r - length r') r]))
       (rmatch a (p, r, caps))"

text \<open>
  \<open>re.search\<close>: the leftmost start position with a match, and there the first match in
  the matcher's order. The result is the matched text (\<open>group()\<close>) and the captured
  groups (\<open>group(1)\<close>, \<open>group(2)\<close>, ...).
\<close>

fun search_from :: "regex \<Rightarrow> char option \<Rightarrow> string \<Rightarrow> (string \<times> string list) option" where
  "search_from re p [] =
     (case rmatch re (p, [], []) of [] \<Rightarrow> None | (p', r', caps) # _ \<Rightarrow> Some ([], caps))"
| "search_from re p (c # s) =
     (case rmatch re (p, c # s, []) of
        [] \<Rightarrow> search_from re (Some c) s
      | (p', r', caps) # _ \<Rightarrow> Some (take (length (c # s) - length r') (c # s), caps))"

definition re_search :: "regex \<Rightarrow> string \<Rightarrow> (string \<times> string list) option" where
  "re_search re s = search_from re None s"

text \<open>Sequences and alternations of several parts; \<open>'|'.join\<close> of a pattern list.\<close>

fun seqs :: "regex list \<Rightarrow> regex" where
  "seqs [] = Lit []"
| "seqs [a] = a"
| "seqs (a # b # rs) = Seq a (seqs (b # rs))"

fun alts :: "regex list \<Rightarrow> regex" where
  "alts [] = Lit []"
| "alts [a] = a"
| "alts (a # b # rs) = Alt a (alts (b # rs))"

definition words :: "string list \<Rightarrow> regex" where
  "words ws = alts (map Lit ws)"

section \<open>Python values and dictionaries\<close>

text \<open>
  The values held by the \<open>Dict[str, Any]\<close> fields. A dictionary is an association list in
  insertion order: setting a key replaces the value in place or appends the new entry,
  as a Python \<open>dict\<close> does.
\<close>

datatype pyval =
    PNone
  | PBool bool
  | PInt int
  | PStr string
  | PList "pyval list"
  | PDict "(string \<times> pyval) list"

type_synonym pydict = "(string \<times> pyval) list"

fun truthy :: "pyval \<Rightarrow> bool" where
  "truthy PNone = False"
| "truthy (PBool b) = b"
| "truthy (PInt i) = (i \<noteq> 0)"
| "truthy (PStr s) = (s \<noteq> [])"
| "truthy (PList xs) = (xs \<noteq> [])"
| "truthy (PDict d) = (d \<noteq> [])"

fun dict_set :: "string \<Rightarrow> pyval \<Rightarrow> pydict \<Rightarrow> pydict" where
  "dict_set k v [] = [(k, v)]"
| "dict_set k v (p # ps) = (if fst p = k then (k, v) # ps else p # dict_set k v ps)"

definition dict_has :: "string \<Rightarrow> pydict \<Rightarrow> bool" where
  "dict_has k d = (map_of d k \<noteq> None)"

text \<open>\<open>d.get(k)\<close> is \<open>None\<close> for a missing key; \<open>d.get(k, default)\<close> is the default.\<close>

definition dict_get :: "pydict \<Rightarrow> string \<Rightarrow> pyval" where
  "dict_get d k = (case map_of d k of None \<Rightarrow> PNone | Some v \<Rightarrow> v)"

definition dict_get_default :: "pydict \<Rightarrow> string \<Rightarrow> pyval \<Rightarrow> pyval" where
  "dict_get_default d k dflt = (case map_of d k of None \<Rightarrow> dflt | Some v \<Rightarrow> v)"

section \<open>planner.py: the data model\<close>

datatype IntentType =
    GREETING
  | OUTLET_SEARCH
  | HOURS_INQUIRY
  | LOCATION_INQUIRY
  | PHONE_INQUIRY
  | CALCULATION
  | WEATHER_CURRENT
  | WEATHER_FORECAST
  | WEATHER_LOCATION
  | PRODUCT_SEARCH
  | OUTLET_SEARCH_NL
  | GENERAL_QUESTION
  | GOODBYE
  | UNCLEAR

datatype ActionType =
    ASK_CLARIFICATION
  | SEARCH_OUTLETS
  | CALCULATE
  | GET_WEATHER
  | GET_FORECAST
  | SEARCH_WEATHER_LOCATION
  | SEARCH_PRODUCTS
  | SEARCH_OUTLETS_NL
  | PROVIDE_INFO
  | RAG_SEARCH
  | FINISH

text \<open>
  The \<open>confidence\<close> field is a Python float; the classifier only ever stores one of the
  decimal literals of its source, which are modelled by the rationals they denote.
\<close>

record ParsedIntent =
  intent :: IntentType
  entities :: pydict
  missing_info :: "string list"
  confidence :: rat

record PlannedAction =
  action_type :: ActionType
  parameters :: pydict
  reasoning :: string
  required_tools :: "string list"

record PlannerResult =
  pr_intent :: ParsedIntent
  pr_action :: PlannedAction
  context_updates :: pydict

section \<open>planner.py: IntentClassifier\<close>

definition apostrophe :: string where
  "apostrophe = [CHR 0x27]"

definition location_patterns :: "regex list" where
  "location_patterns =
     [seqs [WordB, words [''petaling jaya'', ''pj''], WordB],
      seqs [WordB, words [''kuala lumpur'', ''kl''], WordB],
      seqs [WordB, Alt (seqs [Lit ''ss'', Star [Space], Lit ''2'']) (Lit ''ss2''), WordB],
      seqs [WordB, Alt (seqs [Lit ''ss'', Star [Space], Lit ''15'']) (Lit ''ss15''), WordB],
      seqs [WordB, Lit ''damansara utama'', WordB],
      seqs [WordB, Lit ''klcc'', WordB],
      seqs [WordB, Lit ''bukit bintang'', WordB]]"

definition malaysia_cities :: "regex list" where
  "malaysia_cities =
     [seqs [WordB, words [''kuala lumpur'', ''kl'', ''johor'', ''penang'', ''selangor'',
                          ''sabah'', ''sarawak''], WordB],
      seqs [WordB, words [''ipoh'', ''malacca'', ''melaka'', ''kuching'', ''kota kinabalu'',
                          ''shah alam''], WordB],
      seqs [WordB, words [''petaling jaya'', ''pj'', ''subang jaya'', ''klang'', ''ampang''],
            WordB]]"

definition calculation_patterns :: "regex list" where
  "calculation_patterns =
     [seqs [Plus [Digit], Star [Space], Cls [Chars ''+-*/''], Star [Space], Plus [Digit]],
      words [''calculate'', ''compute'', ''math'', ''plus'', ''minus'', ''times'', ''divided'',
             ''sum'', ''total'']]"

definition weather_current_patterns :: "regex list" where
  "weather_current_patterns =
     [seqs [WordB,
            alts [Lit ''weather'', Lit ''temperature'', Lit ''temp'', Lit ''climate'',
                  Seq (Lit ''condition'') (Opt (Lit ''s''))],
            WordB],
      seqs [WordB, words [''hot'', ''cold'', ''warm'', ''cool'', ''humid'', ''dry''], WordB],
      seqs [WordB, words [''current'', ''now'', ''today'', ''right now''], WordB, Star [Dot],
            WordB, words [''weather'', ''temperature''], WordB],
      seqs [WordB,
            alts [seqs [Lit ''what'', Opt (Lit apostrophe), Lit ''s the weather''],
                  seqs [Lit ''how'', Opt (Lit apostrophe), Lit ''s the weather''],
                  Lit ''weather like''],
            WordB]]"

definition weather_forecast_patterns :: "regex list" where
  "weather_forecast_patterns =
     [seqs [WordB,
            alts [Lit ''forecast'', Lit ''tomorrow'', Lit ''next'', Lit ''week'',
                  Seq (Lit ''day'') (Opt (Lit ''s'')), Lit ''future''],
            WordB, Star [Dot], WordB, words [''weather'', ''rain'', ''storm''], WordB],
      seqs [WordB, words [''will it rain'', ''going to rain'', ''rain today'', ''rain tomorrow''],
            WordB],
      seqs [WordB, words [''weather for'', ''forecast for''], WordB],
      seqs [WordB,
            alts [seqs [Lit ''3'', Opt (Cls [Space, Chars ''-'']), Lit ''day''],
                  Lit ''weekly'', Lit ''weekend''],
            Lit '' '', words [''weather'', ''forecast''], WordB]]"

definition greeting_patterns :: "regex list" where
  "greeting_patterns =
     [seqs [WordB, words [''hi'', ''hello'', ''hey'', ''good morning'', ''good afternoon'',
                          ''good evening''], WordB]]"

definition goodbye_patterns :: "regex list" where
  "goodbye_patterns =
     [seqs [WordB, words [''bye'', ''goodbye'', ''thank you'', ''thanks'', ''see you''], WordB]]"

definition product_patterns :: "regex list" where
  "product_patterns =
     [seqs [WordB, words [''product'', ''products'', ''drinkware'', ''mug'', ''mugs'', ''cup'',
                          ''cups'', ''tumbler'', ''tumblers'', ''bottle'', ''bottles''], WordB],
      seqs [WordB, words [''travel mug'', ''coffee mug'', ''espresso cup'', ''french press'',
                          ''cold brew'', ''thermal'', ''carafe''], WordB],
      seqs [WordB, words [''ceramic'', ''stainless steel'', ''bamboo'', ''glass'',
                          ''eco-friendly''], WordB],
      seqs [WordB, words [''buy'', ''purchase'', ''shop'', ''store'', ''merchandise'',
                          ''buy online''], WordB]]"

definition advanced_outlet_patterns :: "regex list" where
  "advanced_outlet_patterns =
     [seqs [WordB, words [''find'', ''search'', ''locate'', ''discover''], WordB, Star [Dot],
            WordB, words [''outlet'', ''store'', ''branch'', ''location''], WordB],
      seqs [WordB,
            Alt (seqs [Lit ''drive'', Opt (Cls [Dot]), Lit ''thru''])
                (seqs [Lit ''drive'', Opt (Cls [Dot]), Lit ''through'']),
            WordB],
      seqs [WordB,
            alts [seqs [Lit ''24'', Opt (Cls [Dot]), Lit ''hour''],
                  seqs [Lit ''24'', Opt (Cls [Dot]), Lit ''hours''],
                  Lit ''overnight'', Lit ''late night''],
            WordB],
      seqs [WordB,
            alts [Lit ''parking'', Lit ''wifi'', Lit ''meeting'',
                  seqs [Lit ''family'', Opt (Cls [Dot]), Lit ''friendly''],
                  seqs [Lit ''student'', Opt (Cls [Dot]), Lit ''friendly'']],
            WordB],
      seqs [WordB, words [''near'', ''nearby'', ''close to'', ''around''], WordB]]"

text \<open>The two patterns written inline in \<open>classify_intent\<close>.\<close>

definition forecast_days_pattern :: regex where
  "forecast_days_pattern = seqs [Grp (Plus [Digit]), Opt (Cls [Space, Chars ''-'']), Lit ''day'']"

definition math_pattern :: regex where
  "math_pattern =
     seqs [Grp (Plus [Digit]), Star [Space], Grp (Cls [Chars ''+-*/'']), Star [Space],
           Grp (Plus [Digit])]"

definition group :: "string list \<Rightarrow> nat \<Rightarrow> string" where
  "group caps n = caps ! (n - 1)"

definition matches :: "regex \<Rightarrow> string \<Rightarrow> bool" where
  "matches re s = (re_search re s \<noteq> None)"

text \<open>The loop that keeps the match of the first pattern that matches.\<close>

fun first_match :: "regex list \<Rightarrow> string \<Rightarrow> string option" where
  "first_match [] s = None"
| "first_match (p # ps) s =
     (case re_search p s of Some (m, caps) \<Rightarrow> Some m | None \<Rightarrow> first_match ps s)"

definition extract_entities :: "string \<Rightarrow> py_exn + pydict" where
  "extract_entities message_lower =
     (let ents0 = [];
          ents1 = (case first_match location_patterns message_lower of
                     Some m \<Rightarrow> dict_set ''location'' (PStr m) ents0
                   | None \<Rightarrow> ents0);
          ents2 = (case first_match malaysia_cities message_lower of
                     Some m \<Rightarrow> dict_set ''weather_location'' (PStr m) ents1
                   | None \<Rightarrow> ents1)
      in (case re_search forecast_days_pattern message_lower of
            Some (m, caps) \<Rightarrow>
              (case py_int (group caps 1) of
                 Inl e \<Rightarrow> Inl e
               | Inr days \<Rightarrow> Inr (dict_set ''forecast_days'' (PInt days) ents2))
          | None \<Rightarrow> Inr ents2))"

text \<open>
  The branches for hours, address and phone questions read \<open>session_context.get\<close> when
  the message names no outlet; \<open>session_context\<close> defaults to \<open>None\<close>, on which that
  call raises.
\<close>

definition location_missing :: "pydict \<Rightarrow> pydict option \<Rightarrow> py_exn + string list" where
  "location_missing ents session_context =
     (if \<not> dict_has ''location'' ents
      then (case session_context of
              None \<Rightarrow> Inl (AttributeError ''get'')
            | Some ctx \<Rightarrow>
                Inr (if \<not> truthy (dict_get ctx ''area'') then [''location''] else []))
      else Inr [])"

definition classify_intent :: "string \<Rightarrow> pydict option \<Rightarrow> py_exn + ParsedIntent" where
  "classify_intent message session_context =
     (let message_lower = strip (lower message)
      in if message_lower = []
         then Inr \<lparr>intent = UNCLEAR, entities = [], missing_info = [''message''],
                   confidence = 0.0\<rparr>
         else
           case extract_entities message_lower of
             Inl e \<Rightarrow> Inl e
           | Inr ents \<Rightarrow>
              if matches (alts greeting_patterns) message_lower
              then Inr \<lparr>intent = GREETING, entities = ents, missing_info = [],
                        confidence = 0.9\<rparr>
              else if matches (alts goodbye_patterns) message_lower
              then Inr \<lparr>intent = GOODBYE, entities = ents, missing_info = [],
                        confidence = 0.9\<rparr>
              else if matches (alts calculation_patterns) message_lower
              then (case re_search math_pattern message of
                      Some (m, caps) \<Rightarrow>
                        (case py_int (group caps 1) of
                           Inl e \<Rightarrow> Inl e
                         | Inr operand1 \<Rightarrow>
                             (case py_int (group caps 3) of
                                Inl e \<Rightarrow> Inl e
                              | Inr operand2 \<Rightarrow>
                                  Inr \<lparr>intent = CALCULATION,
                                       entities =
                                         dict_set ''operand2'' (PInt operand2)
                                           (dict_set ''operator'' (PStr (group caps 2))
                                              (dict_set ''operand1'' (PInt operand1) ents)),
                                       missing_info = [], confidence = 0.8\<rparr>))
                    | None \<Rightarrow>
                        Inr \<lparr>intent = CALCULATION, entities = ents,
                             missing_info = [''calculation_expression''], confidence = 0.6\<rparr>)
              else if matches (alts weather_forecast_patterns) message_lower
              then Inr \<lparr>intent = WEATHER_FORECAST,
                        entities = (if \<not> dict_has ''forecast_days'' ents
                                    then dict_set ''forecast_days'' (PInt 3) ents
                                    else ents),
                        missing_info = [], confidence = 0.8\<rparr>
              else if matches (alts weather_current_patterns) message_lower
              then (if \<not> dict_has ''weather_location'' ents \<and>
                       list_ex (\<lambda>term. term = strip message_lower)
                         [''weather'', ''temperature'', ''temp'', ''climate'']
                    then Inr \<lparr>intent = WEATHER_CURRENT, entities = ents,
                              missing_info = [''location''], confidence = 0.6\<rparr>
                    else Inr \<lparr>intent = WEATHER_CURRENT, entities = ents,
                              missing_info = [], confidence = 0.8\<rparr>)
              else if matches (alts product_patterns) message_lower
              then Inr \<lparr>intent = PRODUCT_SEARCH,
                        entities = dict_set ''product_query'' (PStr message_lower) ents,
                        missing_info = [], confidence = 0.8\<rparr>
              else if matches (alts advanced_outlet_patterns) message_lower
              then Inr \<lparr>intent = OUTLET_SEARCH_NL,
                        entities = dict_set ''outlet_query'' (PStr message_lower) ents,
                        missing_info = [], confidence = 0.8\<rparr>
              else if str_in ''outlet'' message_lower \<or> str_in ''store'' message_lower \<or>
                      str_in ''shop'' message_lower \<or> str_in ''mall'' message_lower
              then (if \<not> dict_has ''location'' ents
                    then Inr \<lparr>intent = OUTLET_SEARCH, entities = ents,
                              missing_info = [''location''],
                              confidence =
                                (if list_ex (\<lambda>term. term = strip message_lower)
                                      [''outlet'', ''outlets'', ''store'', ''stores'', ''shop'',
                                       ''shops'', ''show outlets'', ''find outlets'']
                                 then 0.6 else 0.8)\<rparr>
                    else Inr \<lparr>intent = OUTLET_SEARCH, entities = ents, missing_info = [],
                              confidence = 0.8\<rparr>)
              else if list_ex (\<lambda>word. str_in word message_lower)
                        [''hour'', ''time'', ''open'', ''close'', ''when'']
              then (case location_missing ents session_context of
                      Inl e \<Rightarrow> Inl e
                    | Inr missing \<Rightarrow>
                        Inr \<lparr>intent = HOURS_INQUIRY, entities = ents,
                             missing_info = missing, confidence = 0.8\<rparr>)
              else if list_ex (\<lambda>word. str_in word message_lower)
                        [''address'', ''where'', ''located'']
              then (case location_missing ents session_context of
                      Inl e \<Rightarrow> Inl e
                    | Inr missing \<Rightarrow>
                        Inr \<lparr>intent = LOCATION_INQUIRY, entities = ents,
                             missing_info = missing, confidence = 0.8\<rparr>)
              else if list_ex (\<lambda>word. str_in word message_lower)
                        [''phone'', ''number'', ''contact'', ''call'']
              then (case location_missing ents session_context of
                      Inl e \<Rightarrow> Inl e
                    | Inr missing \<Rightarrow>
                        Inr \<lparr>intent = PHONE_INQUIRY, entities = ents,
                             missing_info = missing, confidence = 0.8\<rparr>)
              else if strip message_lower \<in> set [''calculate'', ''computation'', ''math'']
              then Inr \<lparr>intent = CALCULATION, entities = ents,
                        missing_info = [''calculation_expression''], confidence = 0.5\<rparr>
              else Inr \<lparr>intent = UNCLEAR, entities = ents,
                        missing_info = [''clarification''], confidence = 0.3\<rparr>)"

section \<open>planner.py: ToolExecutor\<close>

text \<open>
  \<open>execute_calculation\<close>. The operands are Python ints. The whole body is inside
  \<open>try\<close>: an exception of the division or of the conversions of the f-string becomes
  the text \<open>Calculation error: ...\<close>. The quotient of \<open>/\<close> is a float: its text, or the
  \<open>OverflowError\<close> of a quotient too large for a float, is supplied by \<open>fdiv\<close>.
\<close>

definition calculation_error :: "py_exn \<Rightarrow> string" where
  "calculation_error e = ''Calculation error: '' @ exn_str e"

definition render_calculation :: "int \<Rightarrow> string \<Rightarrow> int \<Rightarrow> py_exn + string \<Rightarrow> string" where
  "render_calculation operand1 operator operand2 result =
     (case py_str operand1 of
        Inl e \<Rightarrow> calculation_error e
      | Inr a \<Rightarrow>
          (case py_str operand2 of
             Inl e \<Rightarrow> calculation_error e
           | Inr b \<Rightarrow>
               (case result of
                  Inl e \<Rightarrow> calculation_error e
                | Inr r \<Rightarrow> a @ '' '' @ operator @ '' '' @ b @ '' = '' @ r)))"

definition execute_calculation ::
  "(int \<Rightarrow> int \<Rightarrow> py_exn + string) \<Rightarrow> int \<Rightarrow> string \<Rightarrow> int \<Rightarrow> string" where
  "execute_calculation fdiv operand1 operator operand2 =
     (if operator = ''+''
      then render_calculation operand1 operator operand2 (py_str (operand1 + operand2))
      else if operator = ''-''
      then render_calculation operand1 operator operand2 (py_str (operand1 - operand2))
      else if operator = ''*''
      then render_calculation operand1 operator operand2 (py_str (operand1 * operand2))
      else if operator = ''/''
      then (if operand2 = 0 then ''Error: Cannot divide by zero''
            else (case fdiv operand1 operand2 of
                    Inl e \<Rightarrow> calculation_error e
                  | Inr result \<Rightarrow>
                      render_calculation operand1 operator operand2 (Inr result)))
      else ''Error: Unsupported operator'')"

text \<open>
  The other tools reach outside the planner. \<open>search_outlets\<close> and \<open>get_hours_info\<close>
  parse the catalogue text with \<open>json.loads\<close> and index its records, with no handler
  of their own, so a call either returns a text or raises; they take their keyword
  arguments as a dictionary. The four remote tools catch every exception themselves and
  always return a text.
\<close>

record tools =
  float_div :: "int \<Rightarrow> int \<Rightarrow> py_exn + string"
  search_outlets :: "pydict \<Rightarrow> py_exn + string"
  get_hours_info :: "pydict \<Rightarrow> py_exn + string"
  get_current_weather :: "pyval \<Rightarrow> string"
  get_weather_forecast :: "pyval \<Rightarrow> pyval \<Rightarrow> string"
  search_products :: "pyval \<Rightarrow> string"
  search_outlets_nl :: "pyval \<Rightarrow> string"

section \<open>planner.py: ActionPlanner\<close>

definition calculation_question :: string where
  "calculation_question =
     ''I'd be happy to help with calculations! Could you please provide a clear math expression? For example: '5 + 3' or '10 * 2'' @ apostrophe"

definition plan_action :: "ParsedIntent \<Rightarrow> pydict \<Rightarrow> PlannedAction" where
  "plan_action i session_context =
     (if intent i = GREETING
      then \<lparr>action_type = PROVIDE_INFO,
            parameters = [(''message'', PStr ''Hello! I'm here to help you find information about our outlets. How can I assist you today?'')],
            reasoning = ''User greeted the bot, respond warmly and offer help'',
            required_tools = []\<rparr>
      else if intent i = GOODBYE
      then \<lparr>action_type = FINISH,
            parameters = [(''message'', PStr ''Thank you for using our outlet assistant! Have a great day!'')],
            reasoning = ''User is ending conversation, provide polite farewell'',
            required_tools = []\<rparr>
      else if intent i = CALCULATION
      then (if missing_info i \<noteq> []
            then \<lparr>action_type = ASK_CLARIFICATION,
                  parameters = [(''question'', PStr calculation_question)],
                  reasoning = ''Missing calculation expression, need clarification'',
                  required_tools = []\<rparr>
            else \<lparr>action_type = CALCULATE,
                  parameters = entities i,
                  reasoning = ''User wants calculation and all parameters are available'',
                  required_tools = [''calculator'']\<rparr>)
      else if intent i = WEATHER_CURRENT
      then (if ''location'' \<in> set (missing_info i)
            then \<lparr>action_type = ASK_CLARIFICATION,
                  parameters = [(''question'', PStr ''Which city would you like the weather for? I can provide weather for any Malaysian city. If you don't specify, I'll show weather for Kuala Lumpur.'')],
                  reasoning = ''Very vague weather request, asking for clarification'',
                  required_tools = []\<rparr>
            else \<lparr>action_type = GET_WEATHER,
                  parameters = [(''location'', dict_get_default (entities i) ''weather_location''
                                                (PStr ''Kuala Lumpur, Malaysia''))],
                  reasoning = ''User wants current weather information'',
                  required_tools = [''weather_api'']\<rparr>)
      else if intent i = WEATHER_FORECAST
      then (if ''location'' \<in> set (missing_info i)
            then \<lparr>action_type = ASK_CLARIFICATION,
                  parameters = [(''question'', PStr ''Which city would you like the weather forecast for? I can provide forecasts for any Malaysian city.'')],
                  reasoning = ''Missing location for weather forecast'',
                  required_tools = []\<rparr>
            else \<lparr>action_type = GET_FORECAST,
                  parameters = [(''location'', dict_get_default (entities i) ''weather_location''
                                                (PStr ''Kuala Lumpur, Malaysia'')),
                                (''days'', dict_get_default (entities i) ''forecast_days'' (PInt 3))],
                  reasoning = ''User wants weather forecast information'',
                  required_tools = [''weather_api'']\<rparr>)
      else if intent i = PRODUCT_SEARCH
      then \<lparr>action_type = SEARCH_PRODUCTS,
            parameters = [(''query'', dict_get_default (entities i) ''product_query'' (PStr []))],
            reasoning = ''User wants to search for ZUS Coffee drinkware products'',
            required_tools = [''product_kb'']\<rparr>
      else if intent i = OUTLET_SEARCH_NL
      then \<lparr>action_type = SEARCH_OUTLETS_NL,
            parameters = [(''query'', dict_get_default (entities i) ''outlet_query'' (PStr []))],
            reasoning = ''User wants to search outlets using natural language query'',
            required_tools = [''outlets_db'']\<rparr>
      else if intent i = OUTLET_SEARCH
      then (if ''location'' \<in> set (missing_info i) \<and> \<not> truthy (dict_get session_context ''area'')
            then \<lparr>action_type = ASK_CLARIFICATION,
                  parameters = [(''question'', PStr ''Which area are you interested in? We have outlets in Petaling Jaya (SS 2, SS 15, Damansara Utama) and Kuala Lumpur (KLCC, Bukit Bintang).'')],
                  reasoning = ''Missing location information for outlet search'',
                  required_tools = []\<rparr>
            else \<lparr>action_type = SEARCH_OUTLETS,
                  parameters =
                    (if dict_has ''location'' (entities i)
                     then [(''location'', dict_get (entities i) ''location'')]
                     else if truthy (dict_get session_context ''area'')
                     then [(''area'', dict_get session_context ''area'')]
                     else []),
                  reasoning = ''User wants outlet information and location is available'',
                  required_tools = [''outlet_search'']\<rparr>)
      else if intent i = HOURS_INQUIRY
      then (if ''location'' \<in> set (missing_info i) \<and> \<not> truthy (dict_get session_context ''area'')
               \<and> \<not> truthy (dict_get session_context ''last_outlet_mentioned'')
            then \<lparr>action_type = ASK_CLARIFICATION,
                  parameters = [(''question'', PStr ''Which outlet would you like the opening hours for? Please specify the location.'')],
                  reasoning = ''Missing location information for hours inquiry'',
                  required_tools = []\<rparr>
            else \<lparr>action_type = PROVIDE_INFO,
                  parameters =
                    [(''tool_call'', PStr ''get_hours_info''),
                     (''tool_params'',
                      PDict
                        (if dict_has ''location'' (entities i)
                         then [(''location'', dict_get (entities i) ''location'')]
                         else if truthy (dict_get session_context ''last_outlet_mentioned'')
                         then [(''location'', dict_get session_context ''last_outlet_mentioned'')]
                         else if truthy (dict_get session_context ''specific_location'')
                         then [(''location'', dict_get session_context ''specific_location'')]
                         else if truthy (dict_get session_context ''area'')
                         then [(''area'', dict_get session_context ''area'')]
                         else []))],
                  reasoning = ''User wants hours information and location is available from context'',
                  required_tools = [''outlet_search'']\<rparr>)
      else if intent i = UNCLEAR
      then \<lparr>action_type = ASK_CLARIFICATION,
            parameters = [(''question'', PStr ''I'm not sure I understand. Are you looking for outlet locations, opening hours, contact information, or something else? I can also help with simple calculations!'')],
            reasoning = ''User intent is unclear, need clarification'',
            required_tools = []\<rparr>
      else \<lparr>action_type = ASK_CLARIFICATION,
            parameters = [(''question'', PStr ''How can I help you today? I can provide information about our outlet locations, hours, contact details, current weather conditions, and weather forecasts for Malaysia.'')],
            reasoning = ''Fallback action for unhandled intents'',
            required_tools = []\<rparr>)"

section \<open>planner.py: AgenticPlanner\<close>

text \<open>\<open>d[k]\<close>: the value, or \<open>KeyError\<close>.\<close>

definition dict_item :: "pydict \<Rightarrow> string \<Rightarrow> py_exn + pyval" where
  "dict_item d k = (case map_of d k of None \<Rightarrow> Inl (KeyError k) | Some v \<Rightarrow> Inr v)"

text \<open>
  Step 3 of \<open>process_message\<close>: run the tool the action asks for and store its text
  under \<open>message\<close>. The operands of a calculate action are the classifier's entities, an
  int, a string and an int, as \<open>execute_calculation\<close> declares them; the case of other
  values does not arise from \<open>plan_action\<close> and is given as a \<open>TypeError\<close>.
\<close>

definition with_message :: "PlannedAction \<Rightarrow> string \<Rightarrow> PlannedAction" where
  "with_message action result =
     action\<lparr>parameters := dict_set ''message'' (PStr result) (parameters action)\<rparr>"

definition execute_tools :: "tools \<Rightarrow> PlannedAction \<Rightarrow> py_exn + PlannedAction" where
  "execute_tools t action =
     (let params = parameters action
      in if action_type action = CALCULATE
         then (case dict_item params ''operand1'' of
                 Inl e \<Rightarrow> Inl e
               | Inr a \<Rightarrow>
                   (case dict_item params ''operator'' of
                      Inl e \<Rightarrow> Inl e
                    | Inr op \<Rightarrow>
                        (case dict_item params ''operand2'' of
                           Inl e \<Rightarrow> Inl e
                         | Inr b \<Rightarrow>
                             (case (a, op, b) of
                                (PInt x, PStr f, PInt y) \<Rightarrow>
                                  Inr (with_message action
                                         (execute_calculation (float_div t) x f y))
                              | _ \<Rightarrow> Inl (TypeError ''execute_calculation'')))))
         else if action_type action = SEARCH_OUTLETS
         then (case search_outlets t params of
                 Inl e \<Rightarrow> Inl e
               | Inr result \<Rightarrow> Inr (with_message action result))
         else if action_type action = GET_WEATHER
         then Inr (with_message action (get_current_weather t (dict_get params ''location'')))
         else if action_type action = GET_FORECAST
         then Inr (with_message action
                     (get_weather_forecast t (dict_get_default params ''days'' (PInt 3))
                        (dict_get params ''location'')))
         else if action_type action = SEARCH_PRODUCTS
         then Inr (with_message action
                     (search_products t (dict_get_default params ''query'' (PStr []))))
         else if action_type action = SEARCH_OUTLETS_NL
         then Inr (with_message action
                     (search_outlets_nl t (dict_get_default params ''query'' (PStr []))))
         else if dict_get params ''tool_call'' = PStr ''get_hours_info''
         then (case dict_item params ''tool_params'' of
                 Inl e \<Rightarrow> Inl e
               | Inr (PDict kwargs) \<Rightarrow>
                   (case get_hours_info t kwargs of
                      Inl e \<Rightarrow> Inl e
                    | Inr result \<Rightarrow> Inr (with_message action result))
               | Inr _ \<Rightarrow> Inl (TypeError ''argument after ** must be a mapping''))
         else Inr action)"

text \<open>Step 4: the context updates derived from the location entity.\<close>

definition derive_context_updates :: "ParsedIntent \<Rightarrow> py_exn + pydict" where
  "derive_context_updates i =
     (if dict_has ''location'' (entities i)
      then (case dict_get (entities i) ''location'' of
              PStr loc \<Rightarrow>
                (let location = lower loc;
                     updates = dict_set ''last_outlet_mentioned'' (PStr loc) []
                 in if list_ex (\<lambda>area. str_in area location)
                         [''petaling jaya'', ''pj'', ''ss 2'', ''ss2'', ''ss 15'', ''ss15'', ''damansara'']
                    then (let updates = dict_set ''area'' (PStr ''petaling_jaya'') updates
                          in if str_in ''ss 2'' location \<or> str_in ''ss2'' location
                             then Inr (dict_set ''specific_location'' (PStr ''ss 2'') updates)
                             else if str_in ''ss 15'' location \<or> str_in ''ss15'' location
                             then Inr (dict_set ''specific_location'' (PStr ''ss 15'') updates)
                             else if str_in ''damansara'' location
                             then Inr (dict_set ''specific_location'' (PStr ''damansara utama'') updates)
                             else Inr updates)
                    else if list_ex (\<lambda>area. str_in area location)
                              [''kuala lumpur'', ''kl'', ''klcc'', ''bukit bintang'']
                    then (let updates = dict_set ''area'' (PStr ''kuala_lumpur'') updates
                          in if str_in ''klcc'' location
                             then Inr (dict_set ''specific_location'' (PStr ''klcc'') updates)
                             else if str_in ''bukit bintang'' location
                             then Inr (dict_set ''specific_location'' (PStr ''bukit bintang'') updates)
                             else Inr updates)
                    else Inr updates)
            | _ \<Rightarrow> Inl (AttributeError ''lower''))
      else Inr [])"

text \<open>
  \<open>process_message\<close>: classify, plan, run the tool, derive the context updates. It has no
  \<open>try\<close>: an exception of any step is the result of the call.
\<close>

definition process_message :: "tools \<Rightarrow> string \<Rightarrow> pydict \<Rightarrow> py_exn + PlannerResult" where
  "process_message t message session_context =
     (case classify_intent message (Some session_context) of
        Inl e \<Rightarrow> Inl e
      | Inr i \<Rightarrow>
          (case execute_tools t (plan_action i session_context) of
             Inl e \<Rightarrow> Inl e
           | Inr action \<Rightarrow>
               (case derive_context_updates i of
                  Inl e \<Rightarrow> Inl e
                | Inr updates \<Rightarrow>
                    Inr \<lparr>pr_intent = i, pr_action = action, context_updates = updates\<rparr>)))"


section \<open>memory.py: ConversationMemoryManager\<close>

text \<open>
  The session store. \<open>uuid\<close> stands for the text of \<open>uuid.uuid4()\<close> and \<open>now\<close> for the
  reading of \<open>datetime.now()\<close>, both supplied by the caller of the model; the readings
  of the clock within one call are one value. The field \<open>ctx\<close> is the session's
  \<open>context\<close> dictionary.
\<close>

record ConversationTurn =
  user_message :: string
  bot_response :: string
  timestamp :: nat
  turn_number :: int

record ConversationSession =
  session_id :: string
  turns :: "ConversationTurn list"
  ctx :: pydict
  created_at :: nat
  last_updated :: nat

record ConversationMemoryManager =
  sessions :: "string \<rightharpoonup> ConversationSession"
  window_size :: int

text \<open>The module's global instance, \<open>ConversationMemoryManager()\<close>.\<close>

definition memory_manager :: ConversationMemoryManager where
  "memory_manager = \<lparr>sessions = Map.empty, window_size = 10\<rparr>"

text \<open>The slice \<open>xs[start:]\<close>: a negative start counts from the end, and both clamp.\<close>

definition slice_from :: "'a list \<Rightarrow> int \<Rightarrow> 'a list" where
  "slice_from xs start =
     (let n = int (length xs);
          s = (if start < 0 then max (start + n) 0 else min start n)
      in drop (nat s) xs)"

definition create_session ::
  "ConversationMemoryManager \<Rightarrow> string \<Rightarrow> nat \<Rightarrow> ConversationMemoryManager \<times> string" where
  "create_session mm uuid now =
     (mm\<lparr>sessions := (sessions mm)(uuid \<mapsto>
           \<lparr>session_id = uuid, turns = [], ctx = [], created_at = now, last_updated = now\<rparr>)\<rparr>,
      uuid)"

definition get_or_create_session ::
  "ConversationMemoryManager \<Rightarrow> string \<Rightarrow> nat \<Rightarrow> string option
     \<Rightarrow> ConversationMemoryManager \<times> string" where
  "get_or_create_session mm uuid now sid_opt =
     (case sid_opt of
        None \<Rightarrow> create_session mm uuid now
      | Some sid \<Rightarrow>
          if sid \<noteq> [] \<and> sessions mm sid \<noteq> None then (mm, sid)
          else create_session mm uuid now)"

text \<open>
  \<open>add_turn\<close>. After the first two lines the id is a key of the store, so the lookup
  \<open>self.sessions[session_id]\<close> finds the session.
\<close>

definition add_turn ::
  "ConversationMemoryManager \<Rightarrow> string \<Rightarrow> nat \<Rightarrow> string \<Rightarrow> string \<Rightarrow> string
     \<Rightarrow> ConversationMemoryManager" where
  "add_turn mm uuid now sid user_msg bot_msg =
     (let (mm1, sid1) = (if sessions mm sid = None then create_session mm uuid now else (mm, sid))
      in case sessions mm1 sid1 of
           None \<Rightarrow> mm1
         | Some session \<Rightarrow>
             (let turn = \<lparr>user_message = user_msg, bot_response = bot_msg, timestamp = now,
                          turn_number = int (length (turns session)) + 1\<rparr>;
                  appended = turns session @ [turn];
                  kept = (if int (length appended) > window_size mm1
                          then slice_from appended (- window_size mm1) else appended)
              in mm1\<lparr>sessions := (sessions mm1)(sid1 \<mapsto>
                       session\<lparr>turns := kept, last_updated := now\<rparr>)\<rparr>))"

definition get_conversation_history ::
  "ConversationMemoryManager \<Rightarrow> string \<Rightarrow> ConversationTurn list" where
  "get_conversation_history mm sid =
     (case sessions mm sid of None \<Rightarrow> [] | Some session \<Rightarrow> turns session)"

definition update_context ::
  "ConversationMemoryManager \<Rightarrow> nat \<Rightarrow> string \<Rightarrow> string \<Rightarrow> pyval
     \<Rightarrow> ConversationMemoryManager" where
  "update_context mm now sid key val =
     (case sessions mm sid of
        None \<Rightarrow> mm
      | Some session \<Rightarrow>
          mm\<lparr>sessions := (sessions mm)(sid \<mapsto>
                session\<lparr>ctx := dict_set key val (ctx session), last_updated := now\<rparr>)\<rparr>)"

definition get_context :: "ConversationMemoryManager \<Rightarrow> string \<Rightarrow> string \<Rightarrow> pyval" where
  "get_context mm sid key =
     (case sessions mm sid of None \<Rightarrow> PNone | Some session \<Rightarrow> dict_get (ctx session) key)"

definition clear_session ::
  "ConversationMemoryManager \<Rightarrow> string \<Rightarrow> ConversationMemoryManager \<times> bool" where
  "clear_session mm sid =
     (if sessions mm sid \<noteq> None then (mm\<lparr>sessions := (sessions mm)(sid := None)\<rparr>, True)
      else (mm, False))"

text \<open>A call of one of the store's mutating methods, and a sequence of such calls.\<close>

datatype mutation =
    CreateSession string nat
  | GetOrCreateSession string nat "string option"
  | AddTurn string nat string string string
  | UpdateContext nat string string pyval
  | ClearSession string

fun apply_mutation :: "ConversationMemoryManager \<Rightarrow> mutation \<Rightarrow> ConversationMemoryManager" where
  "apply_mutation mm (CreateSession uuid now) = fst (create_session mm uuid now)"
| "apply_mutation mm (GetOrCreateSession uuid now sid_opt) =
     fst (get_or_create_session mm uuid now sid_opt)"
| "apply_mutation mm (AddTurn uuid now sid user_msg bot_msg) =
     add_turn mm uuid now sid user_msg bot_msg"
| "apply_mutation mm (UpdateContext now sid key val) = update_context mm now sid key val"
| "apply_mutation mm (ClearSession sid) = fst (clear_session mm sid)"

definition run_mutations ::
  "ConversationMemoryManager \<Rightarrow> mutation list \<Rightarrow> ConversationMemoryManager" where
  "run_mutations mm ms = foldl apply_mutation mm ms"

section \<open>main.py: ConversationAgent\<close>

text \<open>
  The agent's collaborators: the planner's tools, and \<open>llm_reply\<close> for the part of
  \<open>process_message\<close> that builds the system prompt from the store and asks the language
  model, which returns the reply or raises.
\<close>

record agent_env =
  agent_tools :: tools
  llm_reply :: "ConversationMemoryManager \<Rightarrow> string \<Rightarrow> string \<Rightarrow> py_exn + string"

definition extract_location_context ::
  "ConversationMemoryManager \<Rightarrow> nat \<Rightarrow> string \<Rightarrow> string \<Rightarrow> ConversationMemoryManager" where
  "extract_location_context mm now message sid =
     (let message_lower = lower message;
          mm1 = (if str_in ''petaling jaya'' message_lower \<or> str_in ''pj'' message_lower
                 then update_context mm now sid ''area'' (PStr ''petaling_jaya'')
                 else if str_in ''kuala lumpur'' message_lower \<or> str_in ''kl'' message_lower
                 then update_context mm now sid ''area'' (PStr ''kuala_lumpur'')
                 else mm);
          both = (\<lambda>area loc.
                    update_context (update_context mm1 now sid ''area'' (PStr area))
                      now sid ''specific_location'' (PStr loc))
      in if str_in ''ss 2'' message_lower \<or> str_in ''ss2'' message_lower
         then both ''petaling_jaya'' ''ss 2''
         else if str_in ''ss 15'' message_lower \<or> str_in ''ss15'' message_lower
         then both ''petaling_jaya'' ''ss 15''
         else if str_in ''damansara utama'' message_lower
         then both ''petaling_jaya'' ''damansara utama''
         else if str_in ''klcc'' message_lower
         then both ''kuala_lumpur'' ''klcc''
         else if str_in ''bukit bintang'' message_lower
         then both ''kuala_lumpur'' ''bukit bintang''
         else mm1)"

text \<open>\<open>process_message\<close> of the agent: the whole body is inside \<open>try\<close>.\<close>

definition agent_process_message ::
  "agent_env \<Rightarrow> ConversationMemoryManager \<Rightarrow> nat \<Rightarrow> string \<Rightarrow> string
     \<Rightarrow> ConversationMemoryManager \<times> string" where
  "agent_process_message env mm now message sid =
     (let mm1 = extract_location_context mm now message sid
      in (mm1,
          case llm_reply env mm1 sid message of
            Inr reply \<Rightarrow> reply
          | Inl e \<Rightarrow>
              ''I'm sorry, I'm having trouble processing your request right now. Please try again. (Error: ''
                @ exn_str e @ '')''))"

fun intent_value :: "IntentType \<Rightarrow> string" where
  "intent_value GREETING = ''greeting''"
| "intent_value OUTLET_SEARCH = ''outlet_search''"
| "intent_value HOURS_INQUIRY = ''hours_inquiry''"
| "intent_value LOCATION_INQUIRY = ''location_inquiry''"
| "intent_value PHONE_INQUIRY = ''phone_inquiry''"
| "intent_value CALCULATION = ''calculation''"
| "intent_value WEATHER_CURRENT = ''weather_current''"
| "intent_value WEATHER_FORECAST = ''weather_forecast''"
| "intent_value WEATHER_LOCATION = ''weather_location''"
| "intent_value PRODUCT_SEARCH = ''product_search''"
| "intent_value OUTLET_SEARCH_NL = ''outlet_search_nl''"
| "intent_value GENERAL_QUESTION = ''general_question''"
| "intent_value GOODBYE = ''goodbye''"
| "intent_value UNCLEAR = ''unclear''"

fun action_value :: "ActionType \<Rightarrow> string" where
  "action_value ASK_CLARIFICATION = ''ask_clarification''"
| "action_value SEARCH_OUTLETS = ''search_outlets''"
| "action_value CALCULATE = ''calculate''"
| "action_value GET_WEATHER = ''get_weather''"
| "action_value GET_FORECAST = ''get_forecast''"
| "action_value SEARCH_WEATHER_LOCATION = ''search_weather_location''"
| "action_value SEARCH_PRODUCTS = ''search_products''"
| "action_value SEARCH_OUTLETS_NL = ''search_outlets_nl''"
| "action_value PROVIDE_INFO = ''provide_info''"
| "action_value RAG_SEARCH = ''rag_search''"
| "action_value FINISH = ''finish''"

type_synonym detailed_result = "pyval \<times> string \<times> string \<times> string \<times> rat \<times> string list"

text \<open>The session context that the agent hands to the planner.\<close>

definition planner_session_context :: "ConversationMemoryManager \<Rightarrow> string \<Rightarrow> pydict" where
  "planner_session_context mm sid =
     [(''area'', get_context mm sid ''area''),
      (''specific_location'', get_context mm sid ''specific_location'')]"

text \<open>The \<open>except Exception\<close> branch of \<open>process_message_with_planner_detailed\<close>.\<close>

definition planner_error_fallback ::
  "agent_env \<Rightarrow> ConversationMemoryManager \<Rightarrow> nat \<Rightarrow> string \<Rightarrow> string
     \<Rightarrow> ConversationMemoryManager \<times> detailed_result" where
  "planner_error_fallback env mm now message sid =
     (let (mm1, fallback_response) = agent_process_message env mm now message sid
      in (mm1,
          (PStr fallback_response, ''general_question'', ''provide_info'',
           ''Fallback due to planner error'', 0.5, [])))"

definition apply_context_updates ::
  "ConversationMemoryManager \<Rightarrow> nat \<Rightarrow> string \<Rightarrow> pydict \<Rightarrow> ConversationMemoryManager" where
  "apply_context_updates mm now sid updates =
     foldl (\<lambda>m (key, val). update_context m now sid key val) mm updates"

definition process_message_with_planner_detailed ::
  "agent_env \<Rightarrow> ConversationMemoryManager \<Rightarrow> nat \<Rightarrow> string \<Rightarrow> string
     \<Rightarrow> ConversationMemoryManager \<times> detailed_result" where
  "process_message_with_planner_detailed env mm now message sid =
     (case process_message (agent_tools env) message (planner_session_context mm sid) of
        Inl e \<Rightarrow> planner_error_fallback env mm now message sid
      | Inr planner_result \<Rightarrow>
          (let mm1 = apply_context_updates mm now sid (context_updates planner_result);
               action = pr_action planner_result;
               labelled = (\<lambda>response_text.
                  (response_text, intent_value (intent (pr_intent planner_result)),
                   action_value (action_type action), reasoning action,
                   confidence (pr_intent planner_result), required_tools action));
               item = (\<lambda>key.
                  case dict_item (parameters action) key of
                    Inl e \<Rightarrow> planner_error_fallback env mm1 now message sid
                  | Inr response_text \<Rightarrow> (mm1, labelled response_text))
           in if action_type action = ASK_CLARIFICATION then item ''question''
              else if action_type action = PROVIDE_INFO then item ''message''
              else if action_type action = SEARCH_OUTLETS then item ''message''
              else if action_type action = CALCULATE then item ''message''
              else if action_type action = FINISH then item ''message''
              else if action_type action = GET_WEATHER then item ''message''
              else if action_type action = GET_FORECAST then item ''message''
              else (let (mm2, reply) = agent_process_message env mm1 now message sid
                    in (mm2, labelled (PStr reply)))))"


section \<open>The specification's resolution order for hours inquiries\<close>

text \<open>
  The location that an hours inquiry resolves to, in the words of the specification:
  the explicit location entity of the message wins over the context's
  \<open>last_outlet_mentioned\<close>, that over its \<open>specific_location\<close>, and that over its
  \<open>area\<close>; the first three are passed as \<open>location\<close>, the last as \<open>area\<close>.
\<close>

definition spec_hours_resolution :: "pydict \<Rightarrow> pydict \<Rightarrow> pydict" where
  "spec_hours_resolution ents sc =
     (case map_of ents ''location'' of
        Some v \<Rightarrow> [(''location'', v)]
      | None \<Rightarrow>
          if truthy (dict_get sc ''last_outlet_mentioned'')
          then [(''location'', dict_get sc ''last_outlet_mentioned'')]
          else if truthy (dict_get sc ''specific_location'')
          then [(''location'', dict_get sc ''specific_location'')]
          else [(''area'', dict_get sc ''area'')])"

section \<open>The invariant of the session store\<close>

text \<open>
  The store keeps the window size of the global instance, and no session holds more
  turns than that.
\<close>

definition turns_inv :: "ConversationMemoryManager \<Rightarrow> bool" where
  "turns_inv mm = (window_size mm = 10 \<and>
     (\<forall>sid s. sessions mm sid = Some s \<longrightarrow> length (turns s) \<le> 10))"

section \<open>Properties of the classifier and the planner\<close>

lemma map_of_dict_set:
  "map_of (dict_set k v d) k' = (if k' = k then Some v else map_of d k')"
  by (induction d) auto

lemma location_missing_Some:
  "location_missing ents (Some sc) =
     Inr (if \<not> dict_has ''location'' ents \<and> \<not> truthy (dict_get sc ''area'')
          then [''location''] else [])"
  by (simp add: location_missing_def)

lemma lower_char_space: "py_isspace c \<Longrightarrow> lower_char c = c"
  by (auto simp: py_isspace_def lower_char_def Let_def)

lemma dropWhile_all: "list_all P xs \<Longrightarrow> dropWhile P xs = []"
  by (induction xs) auto

lemma lower_blank: "list_all py_isspace message \<Longrightarrow> lower message = message"
  unfolding lower_def by (induction message) (simp_all add: lower_char_space)

lemma strip_lower_blank: "list_all py_isspace message \<Longrightarrow> strip (lower message) = []"
  by (simp add: strip_def lower_blank dropWhile_all)

text \<open>
  Claim C1. With \<open>area = "kuala_lumpur"\<close> in the session context, the message
  \<open>what's the address?\<close> is classified as a location inquiry with nothing missing, and
  the claim expects \<open>plan_action\<close> to answer it from the stored area. \<open>plan_action\<close> has
  no branch for location inquiries: the intent reaches the final \<open>else\<close> and the action
  is the fallback \<open>ask_clarification\<close>, whatever the context holds.
\<close>

theorem location_inquiry_unhandled:
  "classify_intent ''what's the address?'' (Some [(''area'', PStr ''kuala_lumpur'')]) =
     Inr \<lparr>intent = LOCATION_INQUIRY, entities = [], missing_info = [], confidence = 0.8\<rparr> \<and>
   plan_action \<lparr>intent = LOCATION_INQUIRY, entities = [], missing_info = [], confidence = 0.8\<rparr>
       [(''area'', PStr ''kuala_lumpur'')] =
     \<lparr>action_type = ASK_CLARIFICATION,
      parameters = [(''question'', PStr ''How can I help you today? I can provide information about our outlet locations, hours, contact details, current weather conditions, and weather forecasts for Malaysia.'')],
      reasoning = ''Fallback action for unhandled intents'',
      required_tools = []\<rparr>"
  by code_simp

lemma lower_ones_day: "lower (replicate n CHR ''1'' @ ''day'') = replicate n CHR ''1'' @ ''day''"
  by (simp add: lower_def lower_char_def)

lemma strip_ones_day:
  "strip (replicate (Suc n) CHR ''1'' @ ''day'') = replicate (Suc n) CHR ''1'' @ ''day''"
  by (simp add: strip_def py_isspace_def)

lemma search_skip:
  assumes "\<And>p r caps. rmatch re (p, c # r, caps) = []"
  shows "search_from re p (replicate (Suc n) c @ t) = search_from re (Some c) t"
  using assms by (induction n arbitrary: p) simp_all

lemma first_match_skip:
  assumes "\<forall>re \<in> set ps. (\<forall>p r caps. rmatch re (p, c # r, caps) = []) \<and>
             search_from re (Some c) t = None"
  shows "first_match ps (replicate (Suc n) c @ t) = None"
  using assms
proof (induction ps)
  case Nil
  show ?case by simp
next
  case (Cons re ps)
  then have a: "\<And>p r caps. rmatch re (p, c # r, caps) = []"
    and b: "search_from re (Some c) t = None" by simp_all
  have "re_search re (replicate (Suc n) c @ t) = None"
    unfolding re_search_def by (simp only: search_skip [of re, OF a] b)
  with Cons show ?case by simp
qed

lemma location_none:
  "first_match location_patterns (replicate (Suc n) CHR ''1'' @ ''day'') = None"
  by (rule first_match_skip)
     (simp add: location_patterns_def words_def at_boundary_def is_word_opt_def py_isword_def)

lemma cities_none:
  "first_match malaysia_cities (replicate (Suc n) CHR ''1'' @ ''day'') = None"
  by (rule first_match_skip)
     (simp add: malaysia_cities_def words_def at_boundary_def is_word_opt_def py_isword_def)

lemma star_ones_day:
  "\<exists>xs. star_states [Digit] p (replicate n CHR ''1'' @ ''day'') caps =
          ((if n = 0 then p else Some CHR ''1''), ''day'', caps) # xs"
proof (induction n arbitrary: p)
  case 0
  show ?case by (simp add: in_classes_def py_isdigit_def)
next
  case (Suc n)
  from Suc [of "Some CHR ''1''"] obtain xs where
    "star_states [Digit] (Some CHR ''1'') (replicate n CHR ''1'' @ ''day'') caps =
       (Some CHR ''1'', ''day'', caps) # xs"
    by (cases "n = 0") auto
  then show ?case by (simp add: in_classes_def py_isdigit_def)
qed

lemma forecast_ones_day:
  "re_search forecast_days_pattern (replicate (Suc n) CHR ''1'' @ ''day'') =
     Some (replicate (Suc n) CHR ''1'' @ ''day'', [replicate (Suc n) CHR ''1''])"
proof -
  obtain xs where st:
    "star_states [Digit] (Some CHR ''1'') (replicate n CHR ''1'' @ ''day'') [] =
       (Some CHR ''1'', ''day'', []) # xs"
    using star_ones_day [of "Some CHR ''1''" n "[]"] by (cases "n = 0") auto
  show ?thesis
    by (simp add: re_search_def forecast_days_pattern_def in_classes_def py_isdigit_def
        py_isspace_def st)
qed

lemma py_int_long:
  "py_int (replicate 4301 CHR ''1'') =
     Inl (ValueError ''Exceeds the limit (4300 digits) for integer string conversion: value has 4301 digits; use sys.set_int_max_str_digits() to increase the limit'')"
proof -
  have a: "str_nat 4300 = ''4300''" and b: "str_nat 4301 = ''4301''" by code_simp+
  show ?thesis
    unfolding py_int_def max_str_digits_def
    by (simp add: a b del: str_nat.simps)
qed

text \<open>
  Claim C4. The claim has \<open>classify_intent\<close> return for every message. The
  conversions \<open>int(...)\<close> of the matched digits are not guarded: for the message of
  4301 digits \<open>1\<close> followed by \<open>day\<close>, whatever the session context, the forecast
  pattern captures the 4301 digits and \<open>int\<close> raises \<open>ValueError\<close>, which is the
  result of the call.
\<close>

theorem classify_intent_raises_on_long_number:
  "classify_intent (replicate 4301 CHR ''1'' @ ''day'') session_context =
     Inl (ValueError ''Exceeds the limit (4300 digits) for integer string conversion: value has 4301 digits; use sys.set_int_max_str_digits() to increase the limit'')"
proof -
  have n: "(4301::nat) = Suc 4300" by simp
  let ?m = "replicate 4301 CHR ''1'' @ ''day''"
  have ml: "strip (lower ?m) = ?m"
    unfolding lower_ones_day unfolding n by (rule strip_ones_day)
  have ne: "?m \<noteq> []" by simp
  have e: "extract_entities ?m =
     Inl (ValueError ''Exceeds the limit (4300 digits) for integer string conversion: value has 4301 digits; use sys.set_int_max_str_digits() to increase the limit'')"
    unfolding extract_entities_def Let_def
    using location_none [of 4300] cities_none [of 4300] forecast_ones_day [of 4300] py_int_long
    by (simp only: n [symmetric] option.case prod.case group_def diff_self_eq_0 nth_Cons_0
        sum.case)
  show ?thesis
    unfolding classify_intent_def Let_def ml
    by (simp only: ne if_False e sum.case)
qed

text \<open>
  Whenever \<open>classify_intent\<close> returns, the confidence of the result lies between 0
  and 1.
\<close>

lemma classify_intent_confidence_range:
  "(case classify_intent message (Some sc) of
      Inl e \<Rightarrow> True
    | Inr r \<Rightarrow> 0 \<le> confidence r \<and> confidence r \<le> 1)"
  unfolding classify_intent_def Let_def location_missing_Some
  by (simp del: list_ex_Cons_iff list.set split: option.split prod.split sum.split)

text \<open>
  The session context is a parameter with the default \<open>None\<close>. Called without a
  context, the branches that read it raise; every caller in the repository passes a
  dictionary.
\<close>

lemma classify_intent_without_context:
  "classify_intent ''what time'' None = Inl (AttributeError ''get'')"
  by code_simp

text \<open>
  Claim C5. For every parsed intent, so for every one that \<open>classify_intent\<close>
  produces, and every session context, the type of the action of \<open>plan_action\<close> is one
  of the nine variants ask_clarification, search_outlets, calculate, get_weather,
  get_forecast, search_products, search_outlets_nl, provide_info, finish.
\<close>

theorem plan_action_nine_variants:
  "action_type (plan_action j sc) \<in>
     set [ASK_CLARIFICATION, SEARCH_OUTLETS, CALCULATE, GET_WEATHER, GET_FORECAST,
          SEARCH_PRODUCTS, SEARCH_OUTLETS_NL, PROVIDE_INFO, FINISH]"
  unfolding plan_action_def by simp

text \<open>
  Claim C9. For the empty string and for every string of whitespace characters only,
  with any session context (also the default \<open>None\<close>), \<open>classify_intent\<close> returns the
  intent unclear with confidence 0.0 and the non-empty missing-info list \<open>['message']\<close>.
\<close>

theorem blank_message_unclear:
  "list_all py_isspace message \<Longrightarrow>
     classify_intent message session_context =
       Inr \<lparr>intent = UNCLEAR, entities = [], missing_info = [''message''], confidence = 0.0\<rparr>"
  by (simp add: classify_intent_def strip_lower_blank)

theorem blank_message_unclear_witness:
  "list_all py_isspace [CHR 0x20, CHR 0x09, CHR 0x0A, CHR 0xA0] \<and>
   classify_intent [CHR 0x20, CHR 0x09, CHR 0x0A, CHR 0xA0] (Some []) =
     Inr \<lparr>intent = UNCLEAR, entities = [], missing_info = [''message''], confidence = 0.0\<rparr> \<and>
   classify_intent [] None =
     Inr \<lparr>intent = UNCLEAR, entities = [], missing_info = [''message''], confidence = 0.0\<rparr>"
proof -
  have h: "list_all py_isspace [CHR 0x20, CHR 0x09, CHR 0x0A, CHR 0xA0]"
    by (simp add: py_isspace_def)
  have e: "list_all py_isspace []" by simp
  show ?thesis
    using h blank_message_unclear [OF h, of "Some []"] blank_message_unclear [OF e, of None]
    by simp
qed

lemma classify_hours:
  "(case classify_intent message (Some sc) of
      Inl e \<Rightarrow> True
    | Inr i \<Rightarrow> intent i = HOURS_INQUIRY \<longrightarrow>
        extract_entities (strip (lower message)) = Inr (entities i) \<and>
        missing_info i =
          (if \<not> dict_has ''location'' (entities i) \<and> \<not> truthy (dict_get sc ''area'')
           then [''location''] else []))"
  unfolding classify_intent_def Let_def location_missing_Some
  by (simp del: list_ex_Cons_iff list.set split: option.split prod.split sum.split)

lemma hours_plan_general:
  assumes c: "classify_intent message (Some sc) = Inr i" and h: "intent i = HOURS_INQUIRY"
  shows "(if \<not> dict_has ''location'' (entities i) \<and> \<not> truthy (dict_get sc ''area'') \<and>
             \<not> truthy (dict_get sc ''last_outlet_mentioned'')
          then action_type (plan_action i sc) = ASK_CLARIFICATION
          else action_type (plan_action i sc) = PROVIDE_INFO \<and>
               parameters (plan_action i sc) =
                 [(''tool_call'', PStr ''get_hours_info''),
                  (''tool_params'', PDict (spec_hours_resolution (entities i) sc))])"
proof -
  from classify_hours [of message sc] c h
  have m: "missing_info i =
          (if \<not> dict_has ''location'' (entities i) \<and> \<not> truthy (dict_get sc ''area'')
           then [''location''] else [])"
    by simp
  show ?thesis
    unfolding plan_action_def spec_hours_resolution_def
    by (auto simp: h m dict_has_def dict_get_def split: option.splits)
qed

text \<open>
  Claim C6. For every message classified as an hours inquiry (classifier and planner
  given the same session context): when the message has no location entity and the
  context has neither a truthy \<open>area\<close> nor a truthy \<open>last_outlet_mentioned\<close>, the
  action is ask_clarification; otherwise it is provide_info whose parameters name the
  deferred tool \<open>get_hours_info\<close> with the location resolved in the order explicit
  entity, \<open>last_outlet_mentioned\<close>, \<open>specific_location\<close>, \<open>area\<close>. For
  \<open>SS 2, what's the opening time?\<close> and the empty context the entity is \<open>ss 2\<close> and
  the deferred call is \<open>get_hours_info(location="ss 2")\<close>.
\<close>

theorem hours_inquiry_resolution:
  "(\<forall>message sc i.
      classify_intent message (Some sc) = Inr i \<and> intent i = HOURS_INQUIRY \<longrightarrow>
      (if \<not> dict_has ''location'' (entities i) \<and> \<not> truthy (dict_get sc ''area'') \<and>
          \<not> truthy (dict_get sc ''last_outlet_mentioned'')
       then action_type (plan_action i sc) = ASK_CLARIFICATION
       else action_type (plan_action i sc) = PROVIDE_INFO \<and>
            parameters (plan_action i sc) =
              [(''tool_call'', PStr ''get_hours_info''),
               (''tool_params'', PDict (spec_hours_resolution (entities i) sc))])) \<and>
   classify_intent ''SS 2, what's the opening time?'' (Some []) =
     Inr \<lparr>intent = HOURS_INQUIRY, entities = [(''location'', PStr ''ss 2'')],
          missing_info = [], confidence = 0.8\<rparr> \<and>
   plan_action \<lparr>intent = HOURS_INQUIRY, entities = [(''location'', PStr ''ss 2'')],
                missing_info = [], confidence = 0.8\<rparr> [] =
     \<lparr>action_type = PROVIDE_INFO,
      parameters = [(''tool_call'', PStr ''get_hours_info''),
                    (''tool_params'', PDict [(''location'', PStr ''ss 2'')])],
      reasoning = ''User wants hours information and location is available from context'',
      required_tools = [''outlet_search'']\<rparr>"
proof -
  have ex1: "classify_intent ''SS 2, what's the opening time?'' (Some []) =
     Inr \<lparr>intent = HOURS_INQUIRY, entities = [(''location'', PStr ''ss 2'')],
          missing_info = [], confidence = 0.8\<rparr>"
    by code_simp
  have ex2: "plan_action \<lparr>intent = HOURS_INQUIRY, entities = [(''location'', PStr ''ss 2'')],
                missing_info = [], confidence = 0.8\<rparr> [] =
     \<lparr>action_type = PROVIDE_INFO,
      parameters = [(''tool_call'', PStr ''get_hours_info''),
                    (''tool_params'', PDict [(''location'', PStr ''ss 2'')])],
      reasoning = ''User wants hours information and location is available from context'',
      required_tools = [''outlet_search'']\<rparr>"
    by code_simp
  from ex1 ex2 hours_plan_general show ?thesis by blast
qed

theorem hours_inquiry_resolution_witness:
  "classify_intent ''what are the opening hours?''
     (Some [(''last_outlet_mentioned'', PStr ''ss 15''), (''area'', PStr ''petaling_jaya'')]) =
     Inr \<lparr>intent = HOURS_INQUIRY, entities = [], missing_info = [], confidence = 0.8\<rparr> \<and>
   parameters (plan_action \<lparr>intent = HOURS_INQUIRY, entities = [], missing_info = [],
                              confidence = 0.8\<rparr>
       [(''last_outlet_mentioned'', PStr ''ss 15''), (''area'', PStr ''petaling_jaya'')]) =
     [(''tool_call'', PStr ''get_hours_info''),
      (''tool_params'', PDict [(''location'', PStr ''ss 15'')])] \<and>
   classify_intent ''what are the opening hours?'' (Some []) =
     Inr \<lparr>intent = HOURS_INQUIRY, entities = [], missing_info = [''location''],
          confidence = 0.8\<rparr> \<and>
   action_type (plan_action \<lparr>intent = HOURS_INQUIRY, entities = [],
                               missing_info = [''location''], confidence = 0.8\<rparr> []) =
     ASK_CLARIFICATION"
proof -
  let ?sc = "[(''last_outlet_mentioned'', PStr ''ss 15''), (''area'', PStr ''petaling_jaya'')]"
  let ?i = "\<lparr>intent = HOURS_INQUIRY, entities = [], missing_info = [], confidence = 0.8\<rparr>"
  let ?j = "\<lparr>intent = HOURS_INQUIRY, entities = [], missing_info = [''location''],
             confidence = 0.8\<rparr>"
  have c1: "classify_intent ''what are the opening hours?'' (Some ?sc) = Inr ?i"
    by code_simp
  have c2: "classify_intent ''what are the opening hours?'' (Some []) = Inr ?j"
    by code_simp
  have g: "classify_intent message (Some sc) = Inr i \<and> intent i = HOURS_INQUIRY \<longrightarrow>
      (if \<not> dict_has ''location'' (entities i) \<and> \<not> truthy (dict_get sc ''area'') \<and>
          \<not> truthy (dict_get sc ''last_outlet_mentioned'')
       then action_type (plan_action i sc) = ASK_CLARIFICATION
       else action_type (plan_action i sc) = PROVIDE_INFO \<and>
            parameters (plan_action i sc) =
              [(''tool_call'', PStr ''get_hours_info''),
               (''tool_params'', PDict (spec_hours_resolution (entities i) sc))])"
    for message sc i
    using hours_inquiry_resolution by blast
  from g [of "''what are the opening hours?''" ?sc ?i] c1
  have p1: "parameters (plan_action ?i ?sc) =
     [(''tool_call'', PStr ''get_hours_info''),
      (''tool_params'', PDict [(''location'', PStr ''ss 15'')])]"
    by (simp add: dict_has_def dict_get_def spec_hours_resolution_def)
  from g [of "''what are the opening hours?''" "[]" ?j] c2
  have p2: "action_type (plan_action ?j []) = ASK_CLARIFICATION"
    by (simp add: dict_has_def dict_get_def)
  from c1 c2 p1 p2 show ?thesis by simp
qed

lemma classify_calc:
  "(case classify_intent message (Some sc) of
      Inl e \<Rightarrow> True
    | Inr i \<Rightarrow> intent i = CALCULATION \<longrightarrow>
        (missing_info i = [] \<longrightarrow>
          (\<exists>a op b. map_of (entities i) ''operand1'' = Some (PInt a) \<and>
                    map_of (entities i) ''operator'' = Some (PStr op) \<and>
                    map_of (entities i) ''operand2'' = Some (PInt b))))"
  unfolding classify_intent_def Let_def location_missing_Some
  by (simp del: list_ex_Cons_iff list.set add: map_of_dict_set split: option.split prod.split sum.split)

lemma calc_plan_general:
  assumes c: "classify_intent message (Some sc) = Inr i" and h: "intent i = CALCULATION"
  shows "(if missing_info i \<noteq> []
          then action_type (plan_action i sc) = ASK_CLARIFICATION \<and>
               parameters (plan_action i sc) = [(''question'', PStr calculation_question)]
          else action_type (plan_action i sc) = CALCULATE \<and>
               required_tools (plan_action i sc) = [''calculator''] \<and>
               parameters (plan_action i sc) = entities i \<and>
               (\<exists>a op b.
                  map_of (parameters (plan_action i sc)) ''operand1'' = Some (PInt a) \<and>
                  map_of (parameters (plan_action i sc)) ''operator'' = Some (PStr op) \<and>
                  map_of (parameters (plan_action i sc)) ''operand2'' = Some (PInt b)))"
proof (cases "missing_info i = []")
  case True
  with classify_calc [of message sc] c h
  have "\<exists>a op b. map_of (entities i) ''operand1'' = Some (PInt a) \<and>
                  map_of (entities i) ''operator'' = Some (PStr op) \<and>
                  map_of (entities i) ''operand2'' = Some (PInt b)"
    by simp
  with True h show ?thesis by (simp add: plan_action_def)
next
  case False
  with h show ?thesis by (simp add: plan_action_def)
qed

text \<open>
  Claim C7. For every message classified as a calculation: when \<open>missing_info\<close> is not
  empty the action is ask_clarification and its question carries the example expression
  \<open>5 + 3\<close>; otherwise the action is calculate with the tool calculator and its
  parameters are the entities, which hold the integer operands and the operator. For the message \<open>5 + 3\<close> the
  entities are \<open>{operand1: 5, operator: '+', operand2: 3}\<close>, the action is calculate and
  the executor stores the text \<open>5 + 3 = 8\<close>.
\<close>

theorem calculation_plan:
  "(\<forall>message sc i.
      classify_intent message (Some sc) = Inr i \<and> intent i = CALCULATION \<longrightarrow>
      (if missing_info i \<noteq> []
       then action_type (plan_action i sc) = ASK_CLARIFICATION \<and>
            parameters (plan_action i sc) = [(''question'', PStr calculation_question)]
       else action_type (plan_action i sc) = CALCULATE \<and>
            required_tools (plan_action i sc) = [''calculator''] \<and>
            parameters (plan_action i sc) = entities i \<and>
            (\<exists>a op b.
               map_of (parameters (plan_action i sc)) ''operand1'' = Some (PInt a) \<and>
               map_of (parameters (plan_action i sc)) ''operator'' = Some (PStr op) \<and>
               map_of (parameters (plan_action i sc)) ''operand2'' = Some (PInt b)))) \<and>
   str_in ''5 + 3'' calculation_question \<and>
   classify_intent ''5 + 3'' (Some []) =
     Inr \<lparr>intent = CALCULATION,
          entities = [(''operand1'', PInt 5), (''operator'', PStr ''+''), (''operand2'', PInt 3)],
          missing_info = [], confidence = 0.8\<rparr> \<and>
   action_type (plan_action
       \<lparr>intent = CALCULATION,
        entities = [(''operand1'', PInt 5), (''operator'', PStr ''+''), (''operand2'', PInt 3)],
        missing_info = [], confidence = 0.8\<rparr> []) = CALCULATE \<and>
   execute_calculation fdiv 5 ''+'' 3 = ''5 + 3 = 8'' \<and>
   map_sum id parameters (execute_tools t (plan_action
       \<lparr>intent = CALCULATION,
        entities = [(''operand1'', PInt 5), (''operator'', PStr ''+''), (''operand2'', PInt 3)],
        missing_info = [], confidence = 0.8\<rparr> [])) =
     Inr [(''operand1'', PInt 5), (''operator'', PStr ''+''), (''operand2'', PInt 3),
          (''message'', PStr ''5 + 3 = 8'')]"
proof -
  let ?r = "\<lparr>intent = CALCULATION,
        entities = [(''operand1'', PInt 5), (''operator'', PStr ''+''), (''operand2'', PInt 3)],
        missing_info = [], confidence = 0.8\<rparr>"
  have q: "str_in ''5 + 3'' calculation_question" by code_simp
  have ex1: "classify_intent ''5 + 3'' (Some []) = Inr ?r" by code_simp
  have ex2: "action_type (plan_action ?r []) = CALCULATE" by code_simp
  have s8: "py_str 8 = Inr ''8''" "py_str 5 = Inr ''5''" "py_str 3 = Inr ''3''" by code_simp+
  have ex3: "execute_calculation f 5 ''+'' 3 = ''5 + 3 = 8''" for f
    by (simp add: execute_calculation_def render_calculation_def s8)
  have p: "plan_action ?r [] =
      \<lparr>action_type = CALCULATE, parameters = entities ?r,
       reasoning = ''User wants calculation and all parameters are available'',
       required_tools = [''calculator'']\<rparr>"
    by (simp add: plan_action_def)
  have ex4: "map_sum id parameters (execute_tools t (plan_action ?r [])) =
     Inr [(''operand1'', PInt 5), (''operator'', PStr ''+''), (''operand2'', PInt 3),
          (''message'', PStr ''5 + 3 = 8'')]"
    unfolding p by (simp add: execute_tools_def dict_item_def with_message_def ex3)
  from q ex1 ex2 ex3 ex4 calc_plan_general show ?thesis by blast
qed

theorem calculation_plan_witness:
  "classify_intent ''calculate'' (Some []) =
     Inr \<lparr>intent = CALCULATION, entities = [],
          missing_info = [''calculation_expression''], confidence = 0.6\<rparr> \<and>
   action_type (plan_action \<lparr>intent = CALCULATION, entities = [],
          missing_info = [''calculation_expression''], confidence = 0.6\<rparr> []) = ASK_CLARIFICATION \<and>
   classify_intent ''12 * 3'' (Some []) =
     Inr \<lparr>intent = CALCULATION,
          entities = [(''operand1'', PInt 12), (''operator'', PStr ''*''), (''operand2'', PInt 3)],
          missing_info = [], confidence = 0.8\<rparr> \<and>
   action_type (plan_action \<lparr>intent = CALCULATION,
          entities = [(''operand1'', PInt 12), (''operator'', PStr ''*''), (''operand2'', PInt 3)],
          missing_info = [], confidence = 0.8\<rparr> []) = CALCULATE"
proof -
  let ?i = "\<lparr>intent = CALCULATION, entities = [],
          missing_info = [''calculation_expression''], confidence = 0.6\<rparr>"
  let ?j = "\<lparr>intent = CALCULATION,
          entities = [(''operand1'', PInt 12), (''operator'', PStr ''*''), (''operand2'', PInt 3)],
          missing_info = [], confidence = 0.8\<rparr>"
  have c1: "classify_intent ''calculate'' (Some []) = Inr ?i" by code_simp
  have c2: "classify_intent ''12 * 3'' (Some []) = Inr ?j" by code_simp
  have g: "classify_intent message (Some sc) = Inr i \<and> intent i = CALCULATION \<longrightarrow>
      (if missing_info i \<noteq> []
       then action_type (plan_action i sc) = ASK_CLARIFICATION \<and>
            parameters (plan_action i sc) = [(''question'', PStr calculation_question)]
       else action_type (plan_action i sc) = CALCULATE \<and>
            required_tools (plan_action i sc) = [''calculator''] \<and>
            parameters (plan_action i sc) = entities i \<and>
            (\<exists>a op b.
               map_of (parameters (plan_action i sc)) ''operand1'' = Some (PInt a) \<and>
               map_of (parameters (plan_action i sc)) ''operator'' = Some (PStr op) \<and>
               map_of (parameters (plan_action i sc)) ''operand2'' = Some (PInt b)))"
    for message sc i
    using calculation_plan by blast
  from g [of "''calculate''" "[]" ?i] c1
  have p1: "action_type (plan_action ?i []) = ASK_CLARIFICATION" by simp
  from g [of "''12 * 3''" "[]" ?j] c2
  have p2: "action_type (plan_action ?j []) = CALCULATE" by simp
  from c1 c2 p1 p2 show ?thesis by simp
qed

lemma dropWhile_head: "xs \<noteq> [] \<Longrightarrow> \<not> P (hd xs) \<Longrightarrow> dropWhile P xs = xs"
  by (cases xs) auto

lemma rstrip_prefix: "rev (dropWhile P (rev t)) @ rev (takeWhile P (rev t)) = t"
proof -
  have "rev (takeWhile P (rev t) @ dropWhile P (rev t)) = t" by simp
  then show ?thesis by (simp only: rev_append)
qed

lemma strip_strip: "strip (strip s) = strip s"
proof -
  let ?P = py_isspace
  let ?t = "dropWhile ?P s"
  let ?u = "rev (dropWhile ?P (rev ?t))"
  have a: "dropWhile ?P ?u = ?u"
  proof (cases "?u = []")
    case True
    show ?thesis by (simp only: True dropWhile.simps)
  next
    case False
    have pre: "?u @ rev (takeWhile ?P (rev ?t)) = ?t" by (rule rstrip_prefix)
    have tne: "?t \<noteq> []"
    proof
      assume t: "?t = []"
      have "?u = []" by (simp only: t rev.simps dropWhile.simps)
      with False show False by (rule notE)
    qed
    from False have "hd (?u @ rev (takeWhile ?P (rev ?t))) = hd ?u" by (rule hd_append2)
    with pre have hd_eq: "hd ?u = hd ?t" by (simp only:)
    from tne have nt: "\<not> ?P (hd ?t)" by (rule hd_dropWhile)
    have np: "\<not> ?P (hd ?u)" unfolding hd_eq by (rule nt)
    from False np show ?thesis by (rule dropWhile_head)
  qed
  show ?thesis unfolding strip_def by (simp only: a rev_rev_ident dropWhile_idem)
qed

lemma has_weather_location:
  "extract_entities ml = Inr ents \<Longrightarrow>
     dict_has ''weather_location'' ents = (first_match malaysia_cities ml \<noteq> None)"
  unfolding extract_entities_def Let_def
  by (auto simp: dict_has_def map_of_dict_set split: option.splits prod.splits sum.splits)

lemma list_ex_eq: "list_ex (\<lambda>t. t = x) xs = (x \<in> set xs)"
  by (auto simp: list_ex_iff)

lemma classify_weather:
  "(case classify_intent message (Some sc) of
      Inl e \<Rightarrow> True
    | Inr i \<Rightarrow> intent i = WEATHER_CURRENT \<longrightarrow>
        extract_entities (strip (lower message)) = Inr (entities i) \<and>
        (missing_info i, confidence i) =
          (if \<not> dict_has ''weather_location'' (entities i) \<and>
              list_ex (\<lambda>term. term = strip (strip (lower message)))
                [''weather'', ''temperature'', ''temp'', ''climate'']
           then ([''location''], 0.6) else ([], 0.8)))"
  unfolding classify_intent_def Let_def location_missing_Some
  by (simp del: list_ex_Cons_iff list.set split: option.split prod.split sum.split)

lemma weather_general:
  assumes c: "classify_intent message (Some sc) = Inr i"
    and h: "intent i = WEATHER_CURRENT"
    and n: "first_match malaysia_cities (strip (lower message)) = None"
  shows "(if strip (lower message) \<in> set [''weather'', ''temperature'', ''temp'', ''climate'']
          then missing_info i = [''location''] \<and> confidence i = 0.6 \<and>
               action_type (plan_action i sc') = ASK_CLARIFICATION
          else missing_info i = [] \<and> confidence i = 0.8 \<and>
               plan_action i sc' =
                 \<lparr>action_type = GET_WEATHER,
                  parameters = [(''location'', PStr ''Kuala Lumpur, Malaysia'')],
                  reasoning = ''User wants current weather information'',
                  required_tools = [''weather_api'']\<rparr>)"
proof -
  from classify_weather [of message sc] c h
  have e: "extract_entities (strip (lower message)) = Inr (entities i)"
    and m: "(missing_info i, confidence i) =
          (if \<not> dict_has ''weather_location'' (entities i) \<and>
              list_ex (\<lambda>term. term = strip (strip (lower message)))
                [''weather'', ''temperature'', ''temp'', ''climate'']
           then ([''location''], 0.6) else ([], 0.8))"
    by simp_all
  from has_weather_location [OF e] n have nw: "\<not> dict_has ''weather_location'' (entities i)"
    by simp
  then have d: "dict_get_default (entities i) ''weather_location'' v = v" for v
    by (simp add: dict_has_def dict_get_default_def)
  show ?thesis
  proof (cases "strip (lower message) \<in> set [''weather'', ''temperature'', ''temp'', ''climate'']")
    case True
    with m nw have "missing_info i = [''location'']" "confidence i = 0.6"
      by (simp_all only: list_ex_eq strip_strip simp_thms if_True prod.inject)
    with True h show ?thesis by (simp add: plan_action_def)
  next
    case False
    with m nw have "missing_info i = []" "confidence i = 0.8"
      by (simp_all only: list_ex_eq strip_strip simp_thms if_False prod.inject)
    with False h d show ?thesis by (simp add: plan_action_def)
  qed
qed

text \<open>
  Claim C3, as the code has it. For every message classified as weather_current in which
  no pattern of the city gazetteer matches: \<open>missing_info\<close> contains \<open>location\<close>
  exactly when the lower-cased, trimmed message is one of \<open>weather\<close>, \<open>temperature\<close>,
  \<open>temp\<close>, \<open>climate\<close>; then the confidence is 0.6 and the plan asks for
  clarification. Any other such message, for instance one naming a city the gazetteer
  does not know, keeps the base confidence 0.8 with no missing field, and \<open>plan_action\<close>
  gives get_weather for the default city \<open>Kuala Lumpur, Malaysia\<close>.
\<close>

theorem weather_current_location_policy:
  assumes "classify_intent message (Some sc) = Inr i"
    and "intent i = WEATHER_CURRENT"
    and "first_match malaysia_cities (strip (lower message)) = None"
  shows "((''location'' \<in> set (missing_info i)) =
            (strip (lower message) \<in> set [''weather'', ''temperature'', ''temp'', ''climate''])) \<and>
         (if strip (lower message) \<in> set [''weather'', ''temperature'', ''temp'', ''climate'']
          then missing_info i = [''location''] \<and> confidence i = 0.6 \<and>
               action_type (plan_action i sc') = ASK_CLARIFICATION
          else missing_info i = [] \<and> confidence i = 0.8 \<and>
               plan_action i sc' =
                 \<lparr>action_type = GET_WEATHER,
                  parameters = [(''location'', PStr ''Kuala Lumpur, Malaysia'')],
                  reasoning = ''User wants current weather information'',
                  required_tools = [''weather_api'']\<rparr>)"
proof -
  note g = weather_general [OF assms, of sc']
  show ?thesis
  proof (cases "strip (lower message) \<in> set [''weather'', ''temperature'', ''temp'', ''climate'']")
    case True
    with g have "missing_info i = [''location'']" by (simp only: if_True)
    with True g show ?thesis by (simp only: if_True list.set insert_iff simp_thms)
  next
    case False
    with g have "missing_info i = []" by (simp only: if_False)
    with False g show ?thesis by (simp only: if_False list.set empty_iff simp_thms)
  qed
qed

theorem weather_current_location_policy_witness:
  "classify_intent ''weather in tokyo'' (Some []) =
     Inr \<lparr>intent = WEATHER_CURRENT, entities = [], missing_info = [], confidence = 0.8\<rparr> \<and>
   plan_action \<lparr>intent = WEATHER_CURRENT, entities = [], missing_info = [], confidence = 0.8\<rparr> [] =
     \<lparr>action_type = GET_WEATHER,
      parameters = [(''location'', PStr ''Kuala Lumpur, Malaysia'')],
      reasoning = ''User wants current weather information'',
      required_tools = [''weather_api'']\<rparr> \<and>
   classify_intent ''Weather'' (Some []) =
     Inr \<lparr>intent = WEATHER_CURRENT, entities = [], missing_info = [''location''],
          confidence = 0.6\<rparr> \<and>
   action_type (plan_action \<lparr>intent = WEATHER_CURRENT, entities = [],
                               missing_info = [''location''], confidence = 0.6\<rparr> []) =
     ASK_CLARIFICATION"
proof -
  let ?i = "\<lparr>intent = WEATHER_CURRENT, entities = [], missing_info = [], confidence = 0.8\<rparr>"
  let ?j = "\<lparr>intent = WEATHER_CURRENT, entities = [], missing_info = [''location''],
             confidence = 0.6\<rparr>"
  have c1: "classify_intent ''weather in tokyo'' (Some []) = Inr ?i" by code_simp
  have n1: "first_match malaysia_cities (strip (lower ''weather in tokyo'')) = None" by code_simp
  have s1: "strip (lower ''weather in tokyo'') = ''weather in tokyo''" by code_simp
  have c2: "classify_intent ''Weather'' (Some []) = Inr ?j" by code_simp
  have n2: "first_match malaysia_cities (strip (lower ''Weather'')) = None" by code_simp
  have s2: "strip (lower ''Weather'') = ''weather''" by code_simp
  have h1: "intent ?i = WEATHER_CURRENT" and h2: "intent ?j = WEATHER_CURRENT" by simp_all
  from weather_current_location_policy [OF c1 h1 n1, of "[]"]
  have p1: "plan_action ?i [] =
     \<lparr>action_type = GET_WEATHER,
      parameters = [(''location'', PStr ''Kuala Lumpur, Malaysia'')],
      reasoning = ''User wants current weather information'',
      required_tools = [''weather_api'']\<rparr>"
    unfolding s1 by simp
  from weather_current_location_policy [OF c2 h2 n2, of "[]"]
  have p2: "action_type (plan_action ?j []) = ASK_CLARIFICATION"
    unfolding s2 by simp
  from c1 c2 p1 p2 show ?thesis by simp
qed

text \<open>
  The wording of claim C3 has the unknown-city message at a confidence below the base of
  its category. \<open>weather in tokyo\<close> matches no city pattern and is not a vague term; its
  confidence is the base value 0.8, not a lower one.
\<close>

theorem unrecognized_city_keeps_base_confidence:
  "first_match malaysia_cities (strip (lower ''weather in tokyo'')) = None \<and>
   classify_intent ''weather in tokyo'' (Some []) =
     Inr \<lparr>intent = WEATHER_CURRENT, entities = [], missing_info = [], confidence = 0.8\<rparr> \<and>
   \<not> confidence \<lparr>intent = WEATHER_CURRENT, entities = [], missing_info = [],
                   confidence = 0.8\<rparr> < 0.8"
proof -
  have a: "first_match malaysia_cities (strip (lower ''weather in tokyo'')) = None"
    by code_simp
  have b: "classify_intent ''weather in tokyo'' (Some []) =
     Inr \<lparr>intent = WEATHER_CURRENT, entities = [], missing_info = [], confidence = 0.8\<rparr>"
    by code_simp
  from a b show ?thesis by simp
qed

section \<open>Properties of the session store\<close>

lemma slice_from_last: "0 < w \<Longrightarrow> slice_from xs (- w) = drop (length xs - nat w) xs"
  by (auto simp: slice_from_def Let_def max_def intro: arg_cong [where f = "\<lambda>k. drop k xs"])

lemma inv_init: "turns_inv memory_manager"
  by (simp add: turns_inv_def memory_manager_def)

lemma inv_create: "turns_inv mm \<Longrightarrow> turns_inv (fst (create_session mm uuid now))"
  by (auto simp: turns_inv_def create_session_def)

lemma inv_get_or_create:
  "turns_inv mm \<Longrightarrow> turns_inv (fst (get_or_create_session mm uuid now so))"
  using inv_create by (auto simp: get_or_create_session_def split: option.split)

lemma inv_update: "turns_inv mm \<Longrightarrow> turns_inv (update_context mm now sid k v)"
  by (auto simp: turns_inv_def update_context_def split: option.split)

lemma inv_clear: "turns_inv mm \<Longrightarrow> turns_inv (fst (clear_session mm sid))"
  by (auto simp: turns_inv_def clear_session_def)

lemma add_turn_existing:
  assumes w: "window_size mm = 10" and s: "sessions mm sid = Some s"
  shows "add_turn mm uuid now sid um bm =
     mm\<lparr>sessions := (sessions mm)(sid \<mapsto>
        s\<lparr>turns := drop (length (turns s) + 1 - 10)
                     (turns s @ [\<lparr>user_message = um, bot_response = bm, timestamp = now,
                                  turn_number = int (length (turns s)) + 1\<rparr>]),
          last_updated := now\<rparr>)\<rparr>"
  using w s by (simp add: add_turn_def Let_def slice_from_last)

lemma add_turn_new:
  assumes w: "window_size mm = 10" and s: "sessions mm sid = None"
  shows "add_turn mm uuid now sid um bm =
     mm\<lparr>sessions := (sessions mm)(uuid \<mapsto>
        \<lparr>session_id = uuid,
         turns = [\<lparr>user_message = um, bot_response = bm, timestamp = now, turn_number = 1\<rparr>],
         ctx = [], created_at = now, last_updated = now\<rparr>)\<rparr>"
  using w s by (simp add: add_turn_def Let_def create_session_def)

lemma inv_add_turn: "turns_inv mm \<Longrightarrow> turns_inv (add_turn mm uuid now sid um bm)"
proof (cases "sessions mm sid")
  case None
  assume "turns_inv mm"
  then show ?thesis
    by (auto simp: add_turn_new [OF _ None] turns_inv_def)
next
  case (Some s)
  assume "turns_inv mm"
  then show ?thesis
    by (auto simp: add_turn_existing [OF _ Some] turns_inv_def)
qed

lemma inv_apply: "turns_inv mm \<Longrightarrow> turns_inv (apply_mutation mm m)"
  by (cases m) (simp_all add: inv_create inv_get_or_create inv_add_turn inv_update inv_clear)

lemma inv_run: "turns_inv mm \<Longrightarrow> turns_inv (run_mutations mm ms)"
  unfolding run_mutations_def
  by (induction ms arbitrary: mm) (simp_all add: inv_apply)

text \<open>
  Claim C8. From the global store (window size 10), after any sequence of calls of the
  store's mutating methods every session holds at most 10 turns; and \<open>add_turn\<close> on an
  existing session appends the new turn and keeps exactly the last 10 of the result,
  dropping the older ones.
\<close>

theorem session_turns_bounded:
  "(\<forall>ms sid s. sessions (run_mutations memory_manager ms) sid = Some s \<longrightarrow>
       length (turns s) \<le> 10) \<and>
   (\<forall>mm uuid now sid um bm s. window_size mm = 10 \<and> sessions mm sid = Some s \<longrightarrow>
       map_option turns (sessions (add_turn mm uuid now sid um bm) sid) =
         Some (drop (length (turns s) + 1 - 10)
                 (turns s @ [\<lparr>user_message = um, bot_response = bm, timestamp = now,
                              turn_number = int (length (turns s)) + 1\<rparr>])))"
proof -
  have a: "length (turns s) \<le> 10"
    if "sessions (run_mutations memory_manager ms) sid = Some s" for ms sid s
    using inv_run [OF inv_init, of ms] that by (auto simp: turns_inv_def)
  have b: "map_option turns (sessions (add_turn mm uuid now sid um bm) sid) =
         Some (drop (length (turns s) + 1 - 10)
                 (turns s @ [\<lparr>user_message = um, bot_response = bm, timestamp = now,
                              turn_number = int (length (turns s)) + 1\<rparr>]))"
    if "window_size mm = 10 \<and> sessions mm sid = Some s" for mm uuid now sid um bm s
    using that by (simp add: add_turn_existing)
  from a b show ?thesis by blast
qed

theorem session_turns_bounded_witness:
  "map_option (\<lambda>s. map turn_number (turns s))
     (sessions (run_mutations memory_manager
        (CreateSession ''6f1c'' 0 # replicate 12 (AddTurn ''77aa'' 1 ''6f1c'' ''hi'' ''yo'')))
        ''6f1c'') = Some [3, 4, 5, 6, 7, 8, 9, 10, 11, 11] \<and>
   (\<exists>s. sessions (run_mutations memory_manager
        (CreateSession ''6f1c'' 0 # replicate 12 (AddTurn ''77aa'' 1 ''6f1c'' ''hi'' ''yo'')))
           ''6f1c'' = Some s \<and> length (turns s) \<le> 10)"
proof -
  let ?mm = "run_mutations memory_manager
        (CreateSession ''6f1c'' 0 # replicate 12 (AddTurn ''77aa'' 1 ''6f1c'' ''hi'' ''yo''))"
  have e: "map_option (\<lambda>s. map turn_number (turns s)) (sessions ?mm ''6f1c'') =
             Some [3, 4, 5, 6, 7, 8, 9, 10, 11, 11]"
    by code_simp
  then obtain s where s: "sessions ?mm ''6f1c'' = Some s" by auto
  with session_turns_bounded have "length (turns s) \<le> 10" by blast
  with e s show ?thesis by blast
qed




section \<open>Properties of the agent\<close>

lemma process_message_propagates:
  assumes "classify_intent message (Some sc) = Inr i"
    and "execute_tools t (plan_action i sc) = Inl e"
  shows "process_message t message sc = Inl e"
  using assms by (simp add: process_message_def)

lemma planner_exception_caught:
  assumes "process_message (agent_tools env) message (planner_session_context mm sid) = Inl e"
  shows "snd (process_message_with_planner_detailed env mm now message sid) =
           (PStr (snd (agent_process_message env mm now message sid)),
            ''general_question'', ''provide_info'', ''Fallback due to planner error'', 0.5, [])"
  using assms
  by (simp add: process_message_with_planner_detailed_def planner_error_fallback_def
      split: prod.split)

lemma agent_reply_text:
  "snd (agent_process_message env mm now message sid) =
     (case llm_reply env (extract_location_context mm now message sid) sid message of
        Inr reply \<Rightarrow> reply
      | Inl e \<Rightarrow>
          ''I'm sorry, I'm having trouble processing your request right now. Please try again. (Error: ''
            @ exn_str e @ '')'')"
  by (simp add: agent_process_message_def Let_def)

text \<open>
  Claim C2, as the code has it. When the tool of the planned action raises,
  \<open>process_message\<close> of the planner has no handler and ends with that exception, for
  every message and session context. Its caller \<open>process_message_with_planner_detailed\<close>
  catches every exception of that call and returns the labels \<open>general_question\<close> and
  \<open>provide_info\<close>, the reasoning \<open>Fallback due to planner error\<close>, the confidence 0.5
  and no tools; the text is the reply of the agent's own \<open>process_message\<close>: the
  answer of the language model, or its apology when that call fails.
\<close>

theorem tool_exception_propagates_then_caught:
  "(\<forall>t message sc i e.
      classify_intent message (Some sc) = Inr i \<and> execute_tools t (plan_action i sc) = Inl e \<longrightarrow>
      process_message t message sc = Inl e) \<and>
   (\<forall>env mm now message sid e.
      process_message (agent_tools env) message (planner_session_context mm sid) = Inl e \<longrightarrow>
      snd (process_message_with_planner_detailed env mm now message sid) =
        (PStr (case llm_reply env (extract_location_context mm now message sid) sid message of
                 Inr reply \<Rightarrow> reply
               | Inl e \<Rightarrow>
                   ''I'm sorry, I'm having trouble processing your request right now. Please try again. (Error: ''
                     @ exn_str e @ '')''),
         ''general_question'', ''provide_info'', ''Fallback due to planner error'', 0.5, []))"
proof (intro conjI allI impI)
  fix t :: tools and message :: string and sc :: pydict and i :: ParsedIntent and e :: py_exn
  assume "classify_intent message (Some sc) = Inr i \<and> execute_tools t (plan_action i sc) = Inl e"
  then show "process_message t message sc = Inl e"
    by (simp add: process_message_propagates)
next
  fix env :: agent_env and mm :: ConversationMemoryManager
    and now :: nat and message sid :: string and e :: py_exn
  assume "process_message (agent_tools env) message (planner_session_context mm sid) = Inl e"
  from planner_exception_caught [OF this, of now]
  show "snd (process_message_with_planner_detailed env mm now message sid) =
        (PStr (case llm_reply env (extract_location_context mm now message sid) sid message of
                 Inr reply \<Rightarrow> reply
               | Inl e \<Rightarrow>
                   ''I'm sorry, I'm having trouble processing your request right now. Please try again. (Error: ''
                     @ exn_str e @ '')''),
         ''general_question'', ''provide_info'', ''Fallback due to planner error'', 0.5, [])"
    by (simp only: agent_reply_text)
qed

theorem tool_exception_propagates_then_caught_witness:
  "process_message
     \<lparr>float_div = (\<lambda>a b. Inr ''0.0''),
      search_outlets = (\<lambda>kw. Inl (OtherError ''Expecting value'')),
      get_hours_info = (\<lambda>kw. Inl (OtherError ''Expecting value'')),
      get_current_weather = (\<lambda>l. ''sunny''),
      get_weather_forecast = (\<lambda>d l. ''rain''),
      search_products = (\<lambda>q. ''mug''),
      search_outlets_nl = (\<lambda>q. ''none'')\<rparr>
     ''SS 2, what's the opening time?'' (planner_session_context memory_manager ''s'') =
     Inl (OtherError ''Expecting value'') \<and>
   snd (process_message_with_planner_detailed
     \<lparr>agent_tools =
        \<lparr>float_div = (\<lambda>a b. Inr ''0.0''),
         search_outlets = (\<lambda>kw. Inl (OtherError ''Expecting value'')),
         get_hours_info = (\<lambda>kw. Inl (OtherError ''Expecting value'')),
         get_current_weather = (\<lambda>l. ''sunny''),
         get_weather_forecast = (\<lambda>d l. ''rain''),
         search_products = (\<lambda>q. ''mug''),
         search_outlets_nl = (\<lambda>q. ''none'')\<rparr>,
      llm_reply = (\<lambda>m s msg. Inr ''The SS 2 outlet opens at 9:00 AM.'')\<rparr>
     memory_manager 0 ''SS 2, what's the opening time?'' ''s'') =
     (PStr ''The SS 2 outlet opens at 9:00 AM.'', ''general_question'', ''provide_info'',
      ''Fallback due to planner error'', 0.5, [])"
proof -
  let ?t = "\<lparr>float_div = (\<lambda>a b. Inr ''0.0''),
      search_outlets = (\<lambda>kw. Inl (OtherError ''Expecting value'')),
      get_hours_info = (\<lambda>kw. Inl (OtherError ''Expecting value'')),
      get_current_weather = (\<lambda>l. ''sunny''),
      get_weather_forecast = (\<lambda>d l. ''rain''),
      search_products = (\<lambda>q. ''mug''),
      search_outlets_nl = (\<lambda>q. ''none'')\<rparr>"
  let ?env = "\<lparr>agent_tools = ?t,
      llm_reply = (\<lambda>m s msg. Inr ''The SS 2 outlet opens at 9:00 AM.'')\<rparr>"
  let ?i = "\<lparr>intent = HOURS_INQUIRY, entities = [(''location'', PStr ''ss 2'')],
                   missing_info = [], confidence = 0.8\<rparr>"
  let ?sc = "planner_session_context memory_manager ''s''"
  let ?msg = "''SS 2, what's the opening time?''"
  have sc: "?sc = [(''area'', PNone), (''specific_location'', PNone)]"
    by (simp add: planner_session_context_def get_context_def memory_manager_def)
  have c: "classify_intent ?msg (Some ?sc) = Inr ?i"
    unfolding sc by code_simp
  have p: "plan_action ?i ?sc =
     \<lparr>action_type = PROVIDE_INFO,
      parameters = [(''tool_call'', PStr ''get_hours_info''),
                    (''tool_params'', PDict [(''location'', PStr ''ss 2'')])],
      reasoning = ''User wants hours information and location is available from context'',
      required_tools = [''outlet_search'']\<rparr>"
    unfolding sc by code_simp
  have t: "execute_tools ?t (plan_action ?i ?sc) = Inl (OtherError ''Expecting value'')"
    unfolding p by (simp add: execute_tools_def dict_get_def dict_item_def)
  from c t tool_exception_propagates_then_caught
  have r1: "process_message ?t ?msg ?sc = Inl (OtherError ''Expecting value'')"
    by blast
  then have r1': "process_message (agent_tools ?env) ?msg ?sc = Inl (OtherError ''Expecting value'')"
    by simp
  from r1' tool_exception_propagates_then_caught
  have r2: "snd (process_message_with_planner_detailed ?env memory_manager 0 ?msg ''s'') =
        (PStr (case llm_reply ?env (extract_location_context memory_manager 0 ?msg ''s'') ''s'' ?msg of
                 Inr reply \<Rightarrow> reply
               | Inl e \<Rightarrow>
                   ''I'm sorry, I'm having trouble processing your request right now. Please try again. (Error: ''
                     @ exn_str e @ '')''),
         ''general_question'', ''provide_info'', ''Fallback due to planner error'', 0.5, [])"
    by blast
  from r1 r2 show ?thesis by simp
qed

text \<open>
  The wording of claim C2 has the orchestrator catch the exception of a tool and never
  propagate one to its caller. With a catalogue tool that raises, \<open>process_message\<close> of
  the planner ends with the exception.
\<close>

theorem planner_propagates_tool_exception:
  "process_message
     \<lparr>float_div = (\<lambda>a b. Inr ''0.0''),
      search_outlets = (\<lambda>kw. Inl (OtherError ''Expecting value'')),
      get_hours_info = (\<lambda>kw. Inl (OtherError ''Expecting value'')),
      get_current_weather = (\<lambda>l. ''sunny''),
      get_weather_forecast = (\<lambda>d l. ''rain''),
      search_products = (\<lambda>q. ''mug''),
      search_outlets_nl = (\<lambda>q. ''none'')\<rparr>
     ''What are the opening hours?'' [(''area'', PStr ''petaling_jaya'')] =
     Inl (OtherError ''Expecting value'')"
proof -
  let ?t = "\<lparr>float_div = (\<lambda>a b. Inr ''0.0''),
      search_outlets = (\<lambda>kw. Inl (OtherError ''Expecting value'')),
      get_hours_info = (\<lambda>kw. Inl (OtherError ''Expecting value'')),
      get_current_weather = (\<lambda>l. ''sunny''),
      get_weather_forecast = (\<lambda>d l. ''rain''),
      search_products = (\<lambda>q. ''mug''),
      search_outlets_nl = (\<lambda>q. ''none'')\<rparr>"
  let ?sc = "[(''area'', PStr ''petaling_jaya'')]"
  let ?i = "\<lparr>intent = HOURS_INQUIRY, entities = [], missing_info = [], confidence = 0.8\<rparr>"
  have c: "classify_intent ''What are the opening hours?'' (Some ?sc) = Inr ?i"
    by code_simp
  have p: "plan_action ?i ?sc =
     \<lparr>action_type = PROVIDE_INFO,
      parameters = [(''tool_call'', PStr ''get_hours_info''),
                    (''tool_params'', PDict [(''area'', PStr ''petaling_jaya'')])],
      reasoning = ''User wants hours information and location is available from context'',
      required_tools = [''outlet_search'']\<rparr>"
    by code_simp
  have t: "execute_tools ?t (plan_action ?i ?sc) = Inl (OtherError ''Expecting value'')"
    unfolding p by (simp add: execute_tools_def dict_get_def dict_item_def)
  from c t show ?thesis by (simp add: process_message_def)
qed

end
